theory Spec2Isabelle
  imports Main "HOL-Library.AList" "HOL-Library.Word"
begin

section \<open>Constraint extraction from CEL expressions (cel-parser.ts)\<close>

text \<open>
  The module \<^verbatim>\<open>packages/protoc-gen-es/src/cel-parser.ts\<close> walks the tree that the
  external CEL parser returns and collects, in one mutable \<^verbatim>\<open>CELParseResult\<close>, the
  fields an expression marks as absent, the fields it pins to a literal, and one branch
  per operand of a disjunction. The functions below follow the source function by
  function. Mutation of the result object is explicit state passing; a JavaScript
  exception is the outcome \<open>Abrupt\<close>, carrying the state the result object had when the
  exception left the function.
\<close>

subsection \<open>Strings\<close>

text \<open>
  A JavaScript string is a sequence of UTF-16 code units. The expression text, the
  diagnostics built from it and the values of string constants are kept as such.
  Names inside the tree (identifiers, field names, operator names) are \<^typ>\<open>string\<close>s:
  the CEL grammar restricts identifiers to ASCII letters, digits and the underscore.
\<close>

type_synonym jsstring = "16 word list"

definition str :: "string \<Rightarrow> jsstring" where
  "str s = map of_char s"

text \<open>
  \<^verbatim>\<open>String.prototype.trim\<close> strips the code units of WhiteSpace and LineTerminator
  (ECMA-262, 12.2 and 12.3: TAB, VT, FF, ZWNBSP, the space separators Zs, LF, CR, LS, PS)
  from both ends.
\<close>

definition isWhiteSpace :: "16 word \<Rightarrow> bool" where
  "isWhiteSpace c \<longleftrightarrow>
     c = 0x0009 \<or> c = 0x000A \<or> c = 0x000B \<or> c = 0x000C \<or> c = 0x000D \<or> c = 0x0020 \<or>
     c = 0x00A0 \<or> c = 0x1680 \<or> (0x2000 \<le> c \<and> c \<le> 0x200A) \<or> c = 0x2028 \<or>
     c = 0x2029 \<or> c = 0x202F \<or> c = 0x205F \<or> c = 0x3000 \<or> c = 0xFEFF"

definition trim :: "jsstring \<Rightarrow> jsstring" where
  "trim s = rev (dropWhile isWhiteSpace (rev (dropWhile isWhiteSpace s)))"

text \<open>
  \<^verbatim>\<open>s.split(sep)\<close> for a one-character separator: the pieces between the separators,
  empty pieces included; never the empty array.
\<close>

fun js_split :: "char \<Rightarrow> string \<Rightarrow> string list" where
  "js_split sep [] = [[]]"
| "js_split sep (c # cs) =
     (if c = sep then [] # js_split sep cs
      else (case js_split sep cs of
              [] \<Rightarrow> [[c]]
            | w # ws \<Rightarrow> (c # w) # ws))"

text \<open>
  \<^verbatim>\<open>[...new Set(xs)]\<close>: a Set keeps the first insertion of each value, in insertion
  order.
\<close>

definition dedup :: "'a list \<Rightarrow> 'a list" where
  "dedup xs = fold (\<lambda>x seen. if x \<in> set seen then seen else seen @ [x]) xs []"

subsection \<open>The expression tree\<close>

text \<open>
  \<^verbatim>\<open>Expr\<close> of \<^verbatim>\<open>cel/expr/syntax.proto\<close>: the oneof \<^verbatim>\<open>exprKind\<close> is one of the cases
  below, or not set. The type \<open>'d\<close> stands for IEEE doubles, which are carried and never
  inspected. The payload of struct and comprehension nodes is never read by the
  analyzer and is left out. \<^verbatim>\<open>int64Value\<close> and \<^verbatim>\<open>uint64Value\<close> are bigints.
\<close>

datatype 'd Constant =
    NullValue
  | BoolValue bool
  | Int64Value int
  | Uint64Value int
  | DoubleValue 'd
  | StringValue jsstring
  | BytesValue "8 word list"
  | ConstantKindNotSet

datatype 'd Expr =
    ExprKindNotSet
  | ConstExpr "'d Constant"
  | IdentExpr string
  | SelectExpr "'d Expr option" string bool
  | CallExpr "'d Expr option" string "'d Expr list"
  | ListExpr "'d Expr list"
  | StructExpr
  | ComprehensionExpr

text \<open>
  \<open>SelectExpr operand field testOnly\<close> and \<open>CallExpr target function args\<close>, as in the
  protobuf messages \<^verbatim>\<open>Expr.Select\<close> and \<^verbatim>\<open>Expr.Call\<close>. The handlers type their argument
  arrays as \<^verbatim>\<open>readonly (Expr | undefined)[]\<close>; the repeated field \<^verbatim>\<open>args\<close> of a call holds
  no \<^verbatim>\<open>undefined\<close> entry, so the argument lists here are lists of expressions and the
  guards \<^verbatim>\<open>if (arg)\<close> in the handlers always pass. Only \<^verbatim>\<open>call.args[0]\<close> of an empty list is
  \<^verbatim>\<open>undefined\<close>.
\<close>

subsection \<open>Results\<close>

datatype 'd LiteralValue = LString jsstring | LNumber 'd | LBoolean bool

text \<open>
  A \<^verbatim>\<open>Record<string, T>\<close> created as \<^verbatim>\<open>{}\<close> is an association list of its own
  properties in insertion order; assigning to an existing key keeps its position
  (\<^const>\<open>AList.update\<close>). \<^verbatim>\<open>CELParseResult\<close> has the three fields of \<^verbatim>\<open>UnionBranch\<close>
  and three more, so it is the record extension.
\<close>

record 'd UnionBranch =
  readOnlyFields :: "string list"
  literalFields :: "(string \<times> 'd LiteralValue) list"
  nestedConstraints :: "(string \<times> string list) list"

record 'd CELParseResult = "'d UnionBranch" +
  unsupportedFields :: "string list"
  errors :: "jsstring list"
  unionGroups :: "'d UnionBranch list"

text \<open>
  A call either returns, with the result object as it has become, or throws: \<open>Abrupt\<close>
  carries the message of the thrown error and the result object as it is at that moment.
\<close>

datatype 'd outcome =
    Normal (resultOf: "'d CELParseResult")
  | Abrupt (thrown: jsstring) (resultOf: "'d CELParseResult")

definition createEmptyResult :: "'d CELParseResult" where
  "createEmptyResult =
     \<lparr>readOnlyFields = [], literalFields = [], nestedConstraints = [],
      unsupportedFields = [], errors = [], unionGroups = []\<rparr>"

subsection \<open>Objects used as dictionaries\<close>

text \<open>
  The dictionaries are plain objects, so a read of a key that is not an own property
  falls through to \<^verbatim>\<open>Object.prototype\<close>. These are its property names (ECMA-262, 20.1.3
  and B.2.2); each is a function or, for \<^verbatim>\<open>__proto__\<close>, the prototype object: truthy, and
  without a \<^verbatim>\<open>push\<close> method.
\<close>

definition objectPrototypeProperties :: "string list" where
  "objectPrototypeProperties =
     [''constructor'', ''hasOwnProperty'', ''isPrototypeOf'', ''propertyIsEnumerable'',
      ''toLocaleString'', ''toString'', ''valueOf'', ''__proto__'',
      ''__defineGetter__'', ''__defineSetter__'', ''__lookupGetter__'', ''__lookupSetter__'']"

text \<open>
  The message of the TypeError raised by calling the missing \<^verbatim>\<open>push\<close> (V8's wording;
  the text is engine-defined and nothing below depends on it).
\<close>

definition pushIsNotAFunction :: jsstring where
  "pushIsNotAFunction = str ''result.nestedConstraints[parentField].push is not a function''"

subsection \<open>Field extraction\<close>

fun isThisIdentifier :: "'d Expr \<Rightarrow> bool" where
  "isThisIdentifier (IdentExpr name) = (name = ''this'')"
| "isThisIdentifier _ = False"

text \<open>
  The result is \<^verbatim>\<open>string | null\<close>. The test \<^verbatim>\<open>if (operandPath)\<close> is a truthiness test:
  it fails for null and for the empty string.
\<close>

fun extractFieldPath :: "'d Expr \<Rightarrow> string option" where
  "extractFieldPath (SelectExpr None field testOnly) = None"
| "extractFieldPath (SelectExpr (Some operand) field testOnly) =
     (case extractFieldPath operand of
        None \<Rightarrow> if isThisIdentifier operand then Some field else None
      | Some operandPath \<Rightarrow>
          if operandPath \<noteq> [] then Some (operandPath @ ''.'' @ field) else None)"
| "extractFieldPath _ = None"

subsection \<open>Value extraction\<close>

text \<open>
  \<open>Number\<close> is the conversion of a bigint to a double (\<^verbatim>\<open>Number(value)\<close>). The result of
  \<open>extractConstant\<close> is a literal value or \<^verbatim>\<open>undefined\<close>.
\<close>

fun extractConstant :: "(int \<Rightarrow> 'd) \<Rightarrow> 'd Expr \<Rightarrow> 'd LiteralValue option" where
  "extractConstant Number (ConstExpr (StringValue s)) = Some (LString s)"
| "extractConstant Number (ConstExpr (Int64Value n)) = Some (LNumber (Number n))"
| "extractConstant Number (ConstExpr (Uint64Value n)) = Some (LNumber (Number n))"
| "extractConstant Number (ConstExpr (DoubleValue d)) = Some (LNumber d)"
| "extractConstant Number (ConstExpr (BoolValue b)) = Some (LBoolean b)"
| "extractConstant Number _ = None"

subsection \<open>Result manipulation\<close>

text \<open>
  \<open>snakeToCamel\<close> is imported from \<^verbatim>\<open>util.js\<close>, which is not among the sources; the
  functions that call it take it as a parameter, a total function of the one string it
  is given.

  In \<open>addReadOnlyField\<close> the read \<^verbatim>\<open>result.nestedConstraints[parentField]\<close> finds the own
  property if there is one. If there is none and the name is a property of
  \<^verbatim>\<open>Object.prototype\<close>, the inherited value is truthy, no array is created, and the call
  of \<^verbatim>\<open>push\<close> on it raises a TypeError. Otherwise the array is created and the child
  pushed.
\<close>

definition addReadOnlyField ::
  "(string \<Rightarrow> string) \<Rightarrow> string \<Rightarrow> 'd CELParseResult \<Rightarrow> 'd outcome" where
  "addReadOnlyField snakeToCamel fieldPath result =
     (if CHR ''.'' \<notin> set fieldPath
      then Normal (result\<lparr>readOnlyFields := readOnlyFields result @ [snakeToCamel fieldPath]\<rparr>)
      else
        (case map snakeToCamel (js_split (CHR ''.'') fieldPath) of
           parentField # childField # rest \<Rightarrow>
             (case map_of (nestedConstraints result) parentField of
                Some children \<Rightarrow>
                  Normal (result\<lparr>nestedConstraints :=
                    AList.update parentField (children @ [childField]) (nestedConstraints result)\<rparr>)
              | None \<Rightarrow>
                  if parentField \<in> set objectPrototypeProperties
                  then Abrupt pushIsNotAFunction result
                  else Normal (result\<lparr>nestedConstraints :=
                    AList.update parentField [childField] (nestedConstraints result)\<rparr>))
         | _ \<Rightarrow> Normal result))"

definition hasBranchConstraints :: "'d CELParseResult \<Rightarrow> bool" where
  "hasBranchConstraints result \<longleftrightarrow>
     length (readOnlyFields result) > 0 \<or>
     length (map fst (literalFields result)) > 0 \<or>
     length (map fst (nestedConstraints result)) > 0"

definition deduplicateResult :: "'d CELParseResult \<Rightarrow> 'd CELParseResult" where
  "deduplicateResult result =
     result\<lparr>readOnlyFields := dedup (readOnlyFields result),
            unsupportedFields := dedup (unsupportedFields result),
            nestedConstraints := map (\<lambda>(parent, children). (parent, dedup children))
                                   (nestedConstraints result)\<rparr>"

subsection \<open>Operator handlers\<close>

text \<open>
  \<open>handleNegation\<close> receives \<^verbatim>\<open>call.args[0]\<close>, which is \<^verbatim>\<open>undefined\<close> for an empty
  argument list. The tests \<^verbatim>\<open>if (field)\<close> are truthiness tests again.
\<close>

definition handleNegation ::
  "(string \<Rightarrow> string) \<Rightarrow> 'd Expr option \<Rightarrow> 'd CELParseResult \<Rightarrow> 'd outcome" where
  "handleNegation snakeToCamel arg result =
     (case arg of
        None \<Rightarrow> Normal result
      | Some ExprKindNotSet \<Rightarrow> Normal result
      | Some (CallExpr target function args) \<Rightarrow>
          (if function = ''has'' \<and> length args = 1
           then (case extractFieldPath (args ! 0) of
                   None \<Rightarrow> Normal result
                 | Some field \<Rightarrow>
                     if field \<noteq> [] then addReadOnlyField snakeToCamel field result
                     else Normal result)
           else Normal result)
      | Some a \<Rightarrow>
          (if (case a of SelectExpr _ _ _ \<Rightarrow> True | IdentExpr _ \<Rightarrow> True | _ \<Rightarrow> False)
           then (case extractFieldPath a of
                   None \<Rightarrow> Normal result
                 | Some field \<Rightarrow>
                     if field \<noteq> [] then addReadOnlyField snakeToCamel field result
                     else Normal result)
           else Normal result))"

text \<open>
  In \<open>processEqualityPair\<close> the assignment \<^verbatim>\<open>result.literalFields[key] = constantValue\<close>
  creates or overwrites an own property, except for the key \<^verbatim>\<open>__proto__\<close>: that
  assignment runs the inherited setter, which ignores a value that is neither an
  object nor null, and every literal value is a primitive.
\<close>

definition processEqualityPair ::
  "(string \<Rightarrow> string) \<Rightarrow> (int \<Rightarrow> 'd) \<Rightarrow> 'd Expr \<Rightarrow> 'd Expr \<Rightarrow> 'd CELParseResult \<Rightarrow> 'd outcome" where
  "processEqualityPair snakeToCamel Number fieldExpr valueExpr result =
     (case extractConstant Number valueExpr of
        None \<Rightarrow> Normal result
      | Some constantValue \<Rightarrow>
          (case extractFieldPath fieldExpr of
             None \<Rightarrow> Normal result
           | Some field \<Rightarrow>
               if field = [] then Normal result
               else if CHR ''.'' \<notin> set field
               then (if snakeToCamel field = ''__proto__'' then Normal result
                     else Normal (result\<lparr>literalFields :=
                       AList.update (snakeToCamel field) constantValue (literalFields result)\<rparr>))
               else addReadOnlyField snakeToCamel field result))"

definition handleEquality ::
  "(string \<Rightarrow> string) \<Rightarrow> (int \<Rightarrow> 'd) \<Rightarrow> 'd Expr list \<Rightarrow> 'd CELParseResult \<Rightarrow> 'd outcome" where
  "handleEquality snakeToCamel Number args result =
     (case args of
        [left, right] \<Rightarrow>
          (case processEqualityPair snakeToCamel Number left right result of
             Normal result' \<Rightarrow> processEqualityPair snakeToCamel Number right left result'
           | Abrupt message result' \<Rightarrow> Abrupt message result')
      | _ \<Rightarrow> Normal result)"

subsection \<open>The visitor\<close>

text \<open>
  \<open>visitExpr\<close>, \<open>handleAnd\<close> and \<open>handleOr\<close> call each other; the recursion follows the
  tree, and the depth limit of the engine's call stack is not modelled. The loop of
  \<open>handleOr\<close> is
  \<open>handleOr_loop\<close>, with the local array \<^verbatim>\<open>branches\<close> as an accumulator. An exception in
  an operand leaves \<open>handleOr\<close> before \<^verbatim>\<open>result.unionGroups.push(...branches)\<close>; the
  branch result it was visiting is dropped with the frame.
\<close>

fun visitExpr ::
    "(string \<Rightarrow> string) \<Rightarrow> (int \<Rightarrow> 'd) \<Rightarrow> 'd Expr \<Rightarrow> 'd CELParseResult \<Rightarrow> 'd outcome"
  and handleAnd ::
    "(string \<Rightarrow> string) \<Rightarrow> (int \<Rightarrow> 'd) \<Rightarrow> 'd Expr list \<Rightarrow> 'd CELParseResult \<Rightarrow> 'd outcome"
  and handleOr ::
    "(string \<Rightarrow> string) \<Rightarrow> (int \<Rightarrow> 'd) \<Rightarrow> 'd Expr list \<Rightarrow> 'd CELParseResult \<Rightarrow> 'd outcome"
  and handleOr_loop ::
    "(string \<Rightarrow> string) \<Rightarrow> (int \<Rightarrow> 'd) \<Rightarrow> 'd Expr list \<Rightarrow> 'd UnionBranch list \<Rightarrow> 'd CELParseResult
       \<Rightarrow> 'd outcome"
where
  "visitExpr snakeToCamel Number (CallExpr target function args) result =
     (if function = ''!_''
        then handleNegation snakeToCamel (case args of [] \<Rightarrow> None | a # _ \<Rightarrow> Some a) result
      else if function = ''_==_'' then handleEquality snakeToCamel Number args result
      else if function = ''_&&_'' then handleAnd snakeToCamel Number args result
      else if function = ''_||_'' then handleOr snakeToCamel Number args result
      else Normal result)"
| "visitExpr snakeToCamel Number ExprKindNotSet result = Normal result"
| "visitExpr snakeToCamel Number (ConstExpr c) result = Normal result"
| "visitExpr snakeToCamel Number (IdentExpr name) result = Normal result"
| "visitExpr snakeToCamel Number (SelectExpr operand field testOnly) result = Normal result"
| "visitExpr snakeToCamel Number (ListExpr elements) result = Normal result"
| "visitExpr snakeToCamel Number StructExpr result = Normal result"
| "visitExpr snakeToCamel Number ComprehensionExpr result = Normal result"
| "handleAnd snakeToCamel Number [] result = Normal result"
| "handleAnd snakeToCamel Number (arg # rest) result =
     (case visitExpr snakeToCamel Number arg result of
        Normal result' \<Rightarrow> handleAnd snakeToCamel Number rest result'
      | Abrupt message result' \<Rightarrow> Abrupt message result')"
| "handleOr snakeToCamel Number args result = handleOr_loop snakeToCamel Number args [] result"
| "handleOr_loop snakeToCamel Number [] branches result =
     Normal (result\<lparr>unionGroups := unionGroups result @ branches\<rparr>)"
| "handleOr_loop snakeToCamel Number (arg # rest) branches result =
     (case visitExpr snakeToCamel Number arg createEmptyResult of
        Abrupt message branchResult \<Rightarrow> Abrupt message result
      | Normal branchResult \<Rightarrow>
          handleOr_loop snakeToCamel Number rest
            (if hasBranchConstraints branchResult
             then branches @ [\<lparr>readOnlyFields = readOnlyFields branchResult,
                               literalFields = literalFields branchResult,
                               nestedConstraints = nestedConstraints branchResult\<rparr>]
             else branches)
            (result\<lparr>errors := errors result @ errors branchResult\<rparr>))"

subsection \<open>The entry point\<close>

text \<open>
  \<open>parse\<close> is the external parser of \<^verbatim>\<open>@bufbuild/cel\<close>: \<open>Inl message\<close> when it throws
  (\<open>message\<close> is what the \<^verbatim>\<open>catch\<close> block renders from the thrown value), \<open>Inr\<close> of the
  optional \<^verbatim>\<open>expr\<close> field of the \<^verbatim>\<open>ParsedExpr\<close> it returns otherwise. The \<^verbatim>\<open>try\<close> block
  also encloses the visit, so an exception of the visit is caught by the same handler,
  after the result object has been changed by the part of the visit that ran, and
  before \<open>deduplicateResult\<close>.
\<close>

definition failedToParse :: "jsstring \<Rightarrow> jsstring \<Rightarrow> jsstring" where
  "failedToParse celExpression message =
     str ''Failed to parse CEL expression \"'' @ celExpression @ str ''\": '' @ message"

definition noExpressionFound :: "jsstring \<Rightarrow> jsstring" where
  "noExpressionFound celExpression = str ''No expression found in CEL: '' @ celExpression"

definition parseCELExpression ::
  "(jsstring \<Rightarrow> jsstring + 'd Expr option) \<Rightarrow> (string \<Rightarrow> string) \<Rightarrow> (int \<Rightarrow> 'd) \<Rightarrow> jsstring
     \<Rightarrow> 'd CELParseResult" where
  "parseCELExpression parse snakeToCamel Number celExpression =
     (let result = createEmptyResult in
      if trim celExpression = [] then result
      else
        (case parse celExpression of
           Inl message \<Rightarrow>
             result\<lparr>errors := errors result @ [failedToParse celExpression message]\<rparr>
         | Inr None \<Rightarrow>
             result\<lparr>errors := errors result @ [noExpressionFound celExpression]\<rparr>
         | Inr (Some expr) \<Rightarrow>
             (case visitExpr snakeToCamel Number expr result of
                Normal result' \<Rightarrow> deduplicateResult result'
              | Abrupt message result' \<Rightarrow>
                  result'\<lparr>errors := errors result' @ [failedToParse celExpression message]\<rparr>)))"

subsection \<open>The Branch Composer in the words of the specification\<close>

text \<open>
  Section 4.5 of the specification, for the operands of a disjunction: visit each
  operand into a fresh empty result, keep the results in which one of
  \<open>readOnlyFields\<close>, \<open>literalFields\<close>, \<open>nestedConstraints\<close> is non-empty, and reduce each to
  the shape of a branch, in operand order. \<open>handleOr\<close> is compared with it below.
\<close>

definition branchComposer_spec ::
  "(string \<Rightarrow> string) \<Rightarrow> (int \<Rightarrow> 'd) \<Rightarrow> 'd Expr list \<Rightarrow> 'd UnionBranch list" where
  "branchComposer_spec snakeToCamel Number operands =
     map (\<lambda>branch. \<lparr>readOnlyFields = readOnlyFields branch,
                     literalFields = literalFields branch,
                     nestedConstraints = nestedConstraints branch\<rparr>)
       (filter (\<lambda>branch. readOnlyFields branch \<noteq> [] \<or> literalFields branch \<noteq> [] \<or>
                          nestedConstraints branch \<noteq> [])
          (map (\<lambda>operand. resultOf (visitExpr snakeToCamel Number operand createEmptyResult))
             operands))"

subsection \<open>The assertions of a scope in the words of the specification\<close>

text \<open>
  Section 4.2 to 4.4 of the specification name the assertions that one scope collects:
  a negation applied to a presence check of a resolvable field path, or to the path
  itself, asserts the path absent; an equality of a field path and a literal constant,
  in either order, pins the path; a conjunction passes the assertions of all its
  operands into the same scope; every other node asserts nothing in this scope. The two
  functions below list the camel-cased names of the top-level fields (paths of one
  segment) that an expression asserts absent, and that it pins to a literal. The
  contents of \<open>readOnlyFields\<close> and \<open>literalFields\<close> are compared with them below.
\<close>

definition topLevelName :: "(string \<Rightarrow> string) \<Rightarrow> string option \<Rightarrow> string list" where
  "topLevelName snakeToCamel path =
     (case path of
        None \<Rightarrow> []
      | Some p \<Rightarrow> if p \<noteq> [] \<and> CHR ''.'' \<notin> set p then [snakeToCamel p] else [])"

fun negationTarget_spec :: "'d Expr \<Rightarrow> string option" where
  "negationTarget_spec (CallExpr target fn args) =
     (if fn = ''has'' \<and> length args = 1 then extractFieldPath (hd args) else None)"
| "negationTarget_spec e = extractFieldPath e"

fun assertedAbsent_spec :: "(string \<Rightarrow> string) \<Rightarrow> 'd Expr \<Rightarrow> string list" where
  "assertedAbsent_spec snakeToCamel (CallExpr target fn args) =
     (if fn = ''!_'' then
        (case args of [] \<Rightarrow> [] | a # _ \<Rightarrow> topLevelName snakeToCamel (negationTarget_spec a))
      else if fn = ''_&&_'' then concat (map (assertedAbsent_spec snakeToCamel) args)
      else [])"
| "assertedAbsent_spec snakeToCamel e = []"

fun assertedLiteral_spec :: "(string \<Rightarrow> string) \<Rightarrow> (int \<Rightarrow> 'd) \<Rightarrow> 'd Expr \<Rightarrow> string list" where
  "assertedLiteral_spec snakeToCamel Number (CallExpr target fn args) =
     (if fn = ''_==_'' then
        (case args of
           [l, r] \<Rightarrow>
             (if extractConstant Number r \<noteq> None
              then topLevelName snakeToCamel (extractFieldPath l) else []) @
             (if extractConstant Number l \<noteq> None
              then topLevelName snakeToCamel (extractFieldPath r) else [])
         | _ \<Rightarrow> [])
      else if fn = ''_&&_'' then concat (map (assertedLiteral_spec snakeToCamel Number) args)
      else [])"
| "assertedLiteral_spec snakeToCamel Number e = []"

text \<open>
  Section 4.5 of the specification gives every operand of a disjunction a scope of its
  own, and section 4.4 passes the operands of a conjunction into the scope of the
  conjunction. The function below lists the operands that get a scope of their own in
  the result of an expression: the operands of the disjunctions that the expression is,
  or reaches through conjunctions, in order. A disjunction under another disjunction is
  not among them, nor is anything under a negation or an equality.
\<close>

fun disjunctionOperands_spec :: "'d Expr \<Rightarrow> 'd Expr list" where
  "disjunctionOperands_spec (CallExpr target fn args) =
     (if fn = ''_||_'' then args
      else if fn = ''_&&_'' then concat (map disjunctionOperands_spec args)
      else [])"
| "disjunctionOperands_spec e = []"

text \<open>\<^verbatim>\<open>Object.keys\<close> of a dictionary, as a set.\<close>

abbreviation ownKeys :: "('k \<times> 'v) list \<Rightarrow> 'k set" where
  "ownKeys m \<equiv> fst ` set m"

text \<open>
  The dotted string that \<open>extractFieldPath\<close> builds for the path with the given segments.
\<close>

fun dotted :: "string list \<Rightarrow> string" where
  "dotted [] = []"
| "dotted [s] = s"
| "dotted (s # t # ts) = s @ ''.'' @ dotted (t # ts)"

subsection \<open>Stand-ins and example trees\<close>

text \<open>
  Modelled from the spec: \<^verbatim>\<open>snakeToCamel\<close> of \<^verbatim>\<open>util.js\<close>, which is not among the
  sources. Sections 3 and 6 of the specification: every field-name segment is
  normalized from the lowercase-with-underscores convention to camel case, a pure
  string transform by straightforward separator removal. Here: an underscore followed
  by a lowercase letter is removed and the letter is capitalised. The theorems below
  hold for every function in its place; this one instantiates the parameter in the
  closed examples.
\<close>

fun snakeToCamel_model :: "string \<Rightarrow> string" where
  "snakeToCamel_model (c # d # cs) =
     (if c = CHR ''_'' \<and> (97::nat) \<le> of_char d \<and> of_char d \<le> (122::nat)
      then char_of (of_char d - (32::nat)) # snakeToCamel_model cs
      else c # snakeToCamel_model (d # cs))"
| "snakeToCamel_model cs = cs"

text \<open>
  Stand-ins for the other two parameters in the closed examples: a parser that returns
  the given tree for the text, a parser that throws with the given message, and the
  conversion of a bigint to a number, with the integer \<open>n\<close> standing for the double
  \<^verbatim>\<open>Number(n)\<close> (the same value up to \<open>2\<^sup>5\<^sup>3\<close> in magnitude).
\<close>

definition parser_returning :: "'d Expr \<Rightarrow> jsstring \<Rightarrow> jsstring + 'd Expr option" where
  "parser_returning e text = Inr (Some e)"

definition parser_throwing :: "jsstring \<Rightarrow> jsstring \<Rightarrow> jsstring + 'd Expr option" where
  "parser_throwing message text = Inl message"

definition Number_model :: "int \<Rightarrow> int" where
  "Number_model n = n"

text \<open>
  The trees of the expressions in the examples, as the parser builds them:
  \<^verbatim>\<open>this.f\<close>, \<^verbatim>\<open>has(x)\<close> and the operators as calls of \<^verbatim>\<open>_==_\<close>, \<^verbatim>\<open>!_\<close>, \<^verbatim>\<open>_&&_\<close>, \<^verbatim>\<open>_||_\<close>.
\<close>

abbreviation this_field :: "string \<Rightarrow> 'd Expr" where
  "this_field f \<equiv> SelectExpr (Some (IdentExpr ''this'')) f False"

abbreviation select :: "'d Expr \<Rightarrow> string \<Rightarrow> 'd Expr" where
  "select operand f \<equiv> SelectExpr (Some operand) f False"

abbreviation has_call :: "'d Expr \<Rightarrow> 'd Expr" where
  "has_call x \<equiv> CallExpr None ''has'' [x]"

abbreviation equals :: "'d Expr \<Rightarrow> 'd Expr \<Rightarrow> 'd Expr" where
  "equals a b \<equiv> CallExpr None ''_==_'' [a, b]"

abbreviation negation :: "'d Expr \<Rightarrow> 'd Expr" where
  "negation a \<equiv> CallExpr None ''!_'' [a]"

abbreviation conjunction :: "'d Expr \<Rightarrow> 'd Expr \<Rightarrow> 'd Expr" where
  "conjunction a b \<equiv> CallExpr None ''_&&_'' [a, b]"

abbreviation disjunction :: "'d Expr \<Rightarrow> 'd Expr \<Rightarrow> 'd Expr" where
  "disjunction a b \<equiv> CallExpr None ''_||_'' [a, b]"

abbreviation empty_string :: "'d Expr" where
  "empty_string \<equiv> ConstExpr (StringValue [])"

abbreviation int_zero :: "'d Expr" where
  "int_zero \<equiv> ConstExpr (Int64Value 0)"

section \<open>Properties\<close>

subsection \<open>The stand-ins\<close>

lemma stand_ins [simp]:
  "parser_returning e text = Inr (Some e)"
  "parser_throwing message text = Inl message"
  "Number_model n = n"
  by (simp_all add: parser_returning_def parser_throwing_def Number_model_def)

subsection \<open>What each handler leaves alone\<close>

lemma addReadOnlyField_frame:
  "literalFields (resultOf (addReadOnlyField stc p r)) = literalFields r"
  "errors (resultOf (addReadOnlyField stc p r)) = errors r"
  "unsupportedFields (resultOf (addReadOnlyField stc p r)) = unsupportedFields r"
  "unionGroups (resultOf (addReadOnlyField stc p r)) = unionGroups r"
  by (simp_all add: addReadOnlyField_def split: list.split option.split)

lemma handleNegation_frame:
  "literalFields (resultOf (handleNegation stc a r)) = literalFields r"
  "errors (resultOf (handleNegation stc a r)) = errors r"
  "unsupportedFields (resultOf (handleNegation stc a r)) = unsupportedFields r"
  "unionGroups (resultOf (handleNegation stc a r)) = unionGroups r"
  by (simp_all add: handleNegation_def addReadOnlyField_frame split: option.split Expr.split)

lemma processEqualityPair_frame:
  "errors (resultOf (processEqualityPair stc num a b r)) = errors r"
  "unsupportedFields (resultOf (processEqualityPair stc num a b r)) = unsupportedFields r"
  "unionGroups (resultOf (processEqualityPair stc num a b r)) = unionGroups r"
  by (simp_all add: processEqualityPair_def addReadOnlyField_frame split: option.split)

lemma extractConstant_not_path:
  "extractConstant num e = Some v \<Longrightarrow> extractFieldPath e = None"
  by (cases e) auto

lemma processEqualityPair_no_constant:
  "extractConstant num b = None \<Longrightarrow> processEqualityPair stc num a b r = Normal r"
  by (simp add: processEqualityPair_def)

lemma processEqualityPair_no_path:
  "extractFieldPath a = None \<Longrightarrow> processEqualityPair stc num a b r = Normal r"
  by (simp add: processEqualityPair_def split: option.split)

text \<open>
  Of the two calls that \<open>handleEquality\<close> makes, at most one does anything: a constant
  is not a field path.
\<close>

lemma handleEquality_pair:
  "handleEquality stc num [l, r] res =
     (if extractConstant num r \<noteq> None then processEqualityPair stc num l r res
      else processEqualityPair stc num r l res)"
proof (cases "extractConstant num r")
  case None
  then show ?thesis
    by (simp add: handleEquality_def processEqualityPair_no_constant)
next
  case (Some v)
  then have "extractFieldPath r = None"
    by (rule extractConstant_not_path)
  then have "\<And>res'. processEqualityPair stc num r l res' = Normal res'"
    by (rule processEqualityPair_no_path)
  with Some show ?thesis
    by (simp add: handleEquality_def split: outcome.split)
qed

lemma handleEquality_arity:
  "length args \<noteq> 2 \<Longrightarrow> handleEquality stc num args r = Normal r"
  by (auto simp: handleEquality_def split: list.split)

lemma handleEquality_frame:
  "errors (resultOf (handleEquality stc num args r)) = errors r"
  "unsupportedFields (resultOf (handleEquality stc num args r)) = unsupportedFields r"
  "unionGroups (resultOf (handleEquality stc num args r)) = unionGroups r"
proof -
  have
    "errors (resultOf (handleEquality stc num args r)) = errors r \<and>
     unsupportedFields (resultOf (handleEquality stc num args r)) = unsupportedFields r \<and>
     unionGroups (resultOf (handleEquality stc num args r)) = unionGroups r"
  proof (cases "length args = 2")
    case True
    then obtain l r' where "args = [l, r']"
      by (auto simp: numeral_2_eq_2 length_Suc_conv)
    then show ?thesis
      by (simp add: handleEquality_pair processEqualityPair_frame)
  next
    case False
    then show ?thesis
      by (simp add: handleEquality_arity)
  qed
  then show
    "errors (resultOf (handleEquality stc num args r)) = errors r"
    "unsupportedFields (resultOf (handleEquality stc num args r)) = unsupportedFields r"
    "unionGroups (resultOf (handleEquality stc num args r)) = unionGroups r"
    by simp_all
qed

text \<open>
  The visitor never writes to \<open>errors\<close>: by induction over the mutual recursion of
  \<open>visitExpr\<close>, \<open>handleAnd\<close> and \<open>handleOr\<close>.
\<close>

lemma visit_errors:
  "errors (resultOf (visitExpr stc num e r)) = errors r"
  "errors (resultOf (handleAnd stc num es r)) = errors r"
  "errors (resultOf (handleOr stc num es r)) = errors r"
  "errors (resultOf (handleOr_loop stc num es bs r)) = errors r"
proof (induct stc num e r and stc num es r and stc num es r and stc num es bs r
    rule: visitExpr_handleAnd_handleOr_handleOr_loop.induct)
  case (1 snakeToCamel Number target fn args result)
  then show ?case
    by (simp add: handleNegation_frame handleEquality_frame)
next
  case (10 snakeToCamel Number arg rest result)
  then show ?case
    by (cases "visitExpr snakeToCamel Number arg result") auto
next
  case (13 snakeToCamel Number arg rest branches result)
  then show ?case
    by (cases "visitExpr snakeToCamel Number arg createEmptyResult")
       (auto simp: createEmptyResult_def)
qed simp_all

lemma resolvable_is_select:
  "extractFieldPath e = Some p \<Longrightarrow> \<exists>operand field testOnly. e = SelectExpr operand field testOnly"
  by (cases e) auto

lemma parseCELExpression_visited:
  "trim celExpression \<noteq> [] \<Longrightarrow> parse celExpression = Inr (Some e) \<Longrightarrow>
   visitExpr stc num e createEmptyResult = Normal r \<Longrightarrow>
   parseCELExpression parse stc num celExpression = deduplicateResult r"
  by (simp add: parseCELExpression_def)

lemma trim_nonblank: "\<not> isWhiteSpace c \<Longrightarrow> trim (c # cs) \<noteq> []"
  by (simp add: trim_def)

lemma nonblank_str: "\<not> isWhiteSpace (of_char c) \<Longrightarrow> trim (str (c # cs)) \<noteq> []"
  by (simp add: str_def trim_nonblank)

lemma dropWhile_all_iff: "(\<forall>x \<in> set (dropWhile P s). P x) \<longleftrightarrow> dropWhile P s = []"
  by (metis hd_dropWhile list.set_sel(1) empty_iff list.set(1))

lemma trim_empty_iff: "trim s = [] \<longleftrightarrow> (\<forall>c \<in> set s. isWhiteSpace c)"
  by (simp add: trim_def dropWhile_all_iff)

lemma dedup_Nil: "dedup [] = []"
  by (simp add: dedup_def)

lemma dedup_single: "dedup [x] = [x]"
  by (simp add: dedup_def)

lemma dedup_fold_set:
  "set (fold (\<lambda>x seen. if x \<in> set seen then seen else seen @ [x]) xs acc) = set acc \<union> set xs"
  by (induction xs arbitrary: acc) auto

lemma dedup_fold_distinct:
  "distinct acc \<Longrightarrow>
   distinct (fold (\<lambda>x seen. if x \<in> set seen then seen else seen @ [x]) xs acc)"
  by (induction xs arbitrary: acc) auto

lemma set_dedup: "set (dedup xs) = set xs"
  by (simp add: dedup_def dedup_fold_set)

lemma distinct_dedup: "distinct (dedup xs)"
  by (simp add: dedup_def dedup_fold_distinct)

subsection \<open>The loop of the disjunction handler\<close>

lemma branchComposer_spec_Nil: "branchComposer_spec stc num [] = []"
  by (simp add: branchComposer_spec_def)

lemma branchComposer_spec_Cons:
  "branchComposer_spec stc num (a # rest) =
     (let b = resultOf (visitExpr stc num a createEmptyResult) in
      if hasBranchConstraints b
      then \<lparr>readOnlyFields = readOnlyFields b, literalFields = literalFields b,
            nestedConstraints = nestedConstraints b\<rparr> # branchComposer_spec stc num rest
      else branchComposer_spec stc num rest)"
  by (simp add: branchComposer_spec_def hasBranchConstraints_def Let_def)

lemma visit_empty_errors:
  "visitExpr stc num e createEmptyResult = Normal b \<Longrightarrow> errors b = []"
  using visit_errors(1) [of stc num e createEmptyResult]
  by (simp add: createEmptyResult_def)

lemma handleOr_loop_normal:
  "\<forall>operand \<in> set args. \<exists>b. visitExpr stc num operand createEmptyResult = Normal b \<Longrightarrow>
   handleOr_loop stc num args bs r =
     Normal (r\<lparr>unionGroups := unionGroups r @ bs @ branchComposer_spec stc num args\<rparr>)"
proof (induction args arbitrary: bs r)
  case Nil
  show ?case
    by (simp add: branchComposer_spec_Nil)
next
  case (Cons a rest)
  from Cons.prems obtain b where b: "visitExpr stc num a createEmptyResult = Normal b"
    by auto
  then have "errors b = []"
    by (rule visit_empty_errors)
  with b Cons show ?case
    by (simp add: branchComposer_spec_Cons)
qed

lemma handleOr_loop_abrupt:
  "\<exists>operand \<in> set args. \<exists>m b. visitExpr stc num operand createEmptyResult = Abrupt m b \<Longrightarrow>
   \<exists>m. handleOr_loop stc num args bs r = Abrupt m r"
proof (induction args arbitrary: bs r)
  case Nil
  then show ?case by simp
next
  case (Cons a rest)
  show ?case
  proof (cases "visitExpr stc num a createEmptyResult")
    case (Normal b)
    then have "errors b = []"
      by (rule visit_empty_errors)
    moreover from Normal Cons.prems
    have "\<exists>operand \<in> set rest. \<exists>m b. visitExpr stc num operand createEmptyResult = Abrupt m b"
      by auto
    ultimately show ?thesis
      using Normal Cons.IH by simp
  next
    case (Abrupt m b)
    then show ?thesis by simp
  qed
qed

lemma handleOr_loop_frame:
  "readOnlyFields (resultOf (handleOr_loop stc num args bs r)) = readOnlyFields r \<and>
   literalFields (resultOf (handleOr_loop stc num args bs r)) = literalFields r \<and>
   nestedConstraints (resultOf (handleOr_loop stc num args bs r)) = nestedConstraints r"
proof (induction args arbitrary: bs r)
  case Nil
  show ?case by simp
next
  case (Cons a rest)
  show ?case
    by (cases "visitExpr stc num a createEmptyResult") (simp_all add: Cons.IH)
qed

lemma visit_disjunction_empty:
  "visitExpr stc num (CallExpr t ''_||_'' innerArgs) createEmptyResult = Normal b \<Longrightarrow>
   readOnlyFields b = [] \<and> literalFields b = [] \<and> nestedConstraints b = [] \<and> errors b = []"
  using handleOr_loop_frame [of stc num innerArgs "[]" createEmptyResult]
    visit_errors(1) [of stc num "CallExpr t ''_||_'' innerArgs" createEmptyResult]
  by (simp add: createEmptyResult_def)

lemma handleOr_loop_skip:
  assumes "visitExpr stc num inner createEmptyResult = Normal b"
    and "\<not> hasBranchConstraints b" and "errors b = []"
  shows "handleOr_loop stc num (pre @ inner # post) bs r = handleOr_loop stc num (pre @ post) bs r"
proof (induction pre arbitrary: bs r)
  case Nil
  from assms show ?case by simp
next
  case (Cons a pre)
  show ?case
    by (cases "visitExpr stc num a createEmptyResult") (simp_all add: Cons.IH)
qed

subsection \<open>What a scope collects\<close>

lemma ownKeys_update: "ownKeys (AList.update k v m) = insert k (ownKeys m)"
  by (induction m) auto

lemma addReadOnlyField_readOnly:
  "p \<noteq> [] \<Longrightarrow>
   set (readOnlyFields (resultOf (addReadOnlyField stc p r))) =
     set (readOnlyFields r) \<union> set (topLevelName stc (Some p))"
  by (simp add: addReadOnlyField_def topLevelName_def split: list.split option.split)

lemma handleNegation_readOnly:
  "set (readOnlyFields (resultOf (handleNegation stc (Some a) r))) =
     set (readOnlyFields r) \<union> set (topLevelName stc (negationTarget_spec a))"
proof (cases a)
  case (CallExpr t fn args)
  show ?thesis
  proof (cases "fn = ''has'' \<and> length args = 1")
    case True
    then obtain x where "args = [x]"
      by (auto simp: length_Suc_conv)
    with True CallExpr show ?thesis
      by (auto simp: handleNegation_def addReadOnlyField_readOnly topLevelName_def
          split: option.split)
  next
    case False
    with CallExpr show ?thesis
      by (auto simp: handleNegation_def topLevelName_def)
  qed
next
  case (SelectExpr operand field testOnly)
  then show ?thesis
    by (auto simp: handleNegation_def addReadOnlyField_readOnly topLevelName_def
        simp del: extractFieldPath.simps split: option.split)
qed (simp_all add: handleNegation_def topLevelName_def)

lemma processEqualityPair_fields:
  "readOnlyFields (resultOf (processEqualityPair stc num a b r)) = readOnlyFields r"
  "extractConstant num b \<noteq> None \<Longrightarrow>
   ownKeys (literalFields (resultOf (processEqualityPair stc num a b r))) =
     ownKeys (literalFields r) \<union> (set (topLevelName stc (extractFieldPath a)) - {''__proto__''})"
  by (auto simp: processEqualityPair_def topLevelName_def ownKeys_update addReadOnlyField_frame
      addReadOnlyField_def split: option.split list.split)


lemma handleEquality_fields:
  "readOnlyFields (resultOf (handleEquality stc num args r)) = readOnlyFields r"
  "ownKeys (literalFields (resultOf (handleEquality stc num args r))) =
     ownKeys (literalFields r) \<union>
     (set (assertedLiteral_spec stc num (CallExpr t ''_==_'' args)) - {''__proto__''})"
proof -
  have "readOnlyFields (resultOf (handleEquality stc num args r)) = readOnlyFields r \<and>
    ownKeys (literalFields (resultOf (handleEquality stc num args r))) =
     ownKeys (literalFields r) \<union>
     (set (assertedLiteral_spec stc num (CallExpr t ''_==_'' args)) - {''__proto__''})"
  proof (cases "length args = 2")
    case True
    then obtain l r' where args: "args = [l, r']"
      by (auto simp: numeral_2_eq_2 length_Suc_conv)
    show ?thesis
    proof (cases "extractConstant num r'")
      case (Some v)
      then have "extractFieldPath r' = None"
        by (rule extractConstant_not_path)
      with Some args show ?thesis
        by (simp add: handleEquality_pair processEqualityPair_fields topLevelName_def)
    next
      case None
      note noRight = None
      show ?thesis
      proof (cases "extractConstant num l")
        case None
        with noRight args show ?thesis
          by (simp add: handleEquality_pair processEqualityPair_no_constant)
      next
        case (Some v)
        with noRight args show ?thesis
          by (simp add: handleEquality_pair processEqualityPair_fields)
      qed
    qed
  next
    case False
    then have "handleEquality stc num args r = Normal r"
      by (rule handleEquality_arity)
    moreover from False have "assertedLiteral_spec stc num (CallExpr t ''_==_'' args) = []"
      by (auto split: list.split)
    ultimately show ?thesis
      by simp
  qed
  then show "readOnlyFields (resultOf (handleEquality stc num args r)) = readOnlyFields r"
    and "ownKeys (literalFields (resultOf (handleEquality stc num args r))) =
     ownKeys (literalFields r) \<union>
     (set (assertedLiteral_spec stc num (CallExpr t ''_==_'' args)) - {''__proto__''})"
    by simp_all
qed

lemma visit_fields_subset:
  "set (readOnlyFields (resultOf (visitExpr stc num e r))) \<subseteq>
     set (readOnlyFields r) \<union> set (assertedAbsent_spec stc e) \<and>
   ownKeys (literalFields (resultOf (visitExpr stc num e r))) \<subseteq>
     ownKeys (literalFields r) \<union> set (assertedLiteral_spec stc num e)"
  "set (readOnlyFields (resultOf (handleAnd stc num es r))) \<subseteq>
     set (readOnlyFields r) \<union> set (concat (map (assertedAbsent_spec stc) es)) \<and>
   ownKeys (literalFields (resultOf (handleAnd stc num es r))) \<subseteq>
     ownKeys (literalFields r) \<union> set (concat (map (assertedLiteral_spec stc num) es))"
  "readOnlyFields (resultOf (handleOr stc num es r)) = readOnlyFields r \<and>
   literalFields (resultOf (handleOr stc num es r)) = literalFields r"
  "readOnlyFields (resultOf (handleOr_loop stc num es bs r)) = readOnlyFields r \<and>
   literalFields (resultOf (handleOr_loop stc num es bs r)) = literalFields r"
proof (induct stc num e r and stc num es r and stc num es r and stc num es bs r
    rule: visitExpr_handleAnd_handleOr_handleOr_loop.induct)
  case (1 snakeToCamel Number target fn args result)
  show ?case
  proof (cases "fn = ''!_''")
    case True
    show ?thesis
    proof (cases args)
      case Nil
      with True show ?thesis
        by (simp add: handleNegation_def)
    next
      case (Cons a rest)
      with True show ?thesis
        by (simp add: handleNegation_readOnly handleNegation_frame)
    qed
  next
    case notNeg: False
    show ?thesis
    proof (cases "fn = ''_==_''")
      case True
      then show ?thesis
        using handleEquality_fields(1) [of snakeToCamel Number args result]
          handleEquality_fields(2) [of snakeToCamel Number args result target]
        by auto
    next
      case notEq: False
      show ?thesis
      proof (cases "fn = ''_&&_''")
        case True
        with 1(1) notNeg notEq show ?thesis by simp
      next
        case notAnd: False
        show ?thesis
        proof (cases "fn = ''_||_''")
          case True
          with 1(2) notNeg notEq notAnd show ?thesis by simp
        next
          case False
          with notNeg notEq notAnd show ?thesis by simp
        qed
      qed
    qed
  qed
next
  case (10 snakeToCamel Number arg rest result)
  show ?case
  proof (cases "visitExpr snakeToCamel Number arg result")
    case (Normal result')
    with 10(1) 10(2) [OF Normal] show ?thesis
      by simp blast
  next
    case (Abrupt message result')
    with 10(1) show ?thesis
      by auto
  qed
next
  case (11 snakeToCamel Number args result)
  then show ?case by simp
next
  case (13 snakeToCamel Number arg rest branches result)
  then show ?case
    by (cases "visitExpr snakeToCamel Number arg createEmptyResult") auto
qed simp_all


lemma visit_fields_exact:
  "\<forall>r'. visitExpr stc num e r = Normal r' \<longrightarrow>
     set (readOnlyFields r') = set (readOnlyFields r) \<union> set (assertedAbsent_spec stc e) \<and>
     ownKeys (literalFields r') =
       ownKeys (literalFields r) \<union> (set (assertedLiteral_spec stc num e) - {''__proto__''})"
  "\<forall>r'. handleAnd stc num es r = Normal r' \<longrightarrow>
     set (readOnlyFields r') =
       set (readOnlyFields r) \<union> set (concat (map (assertedAbsent_spec stc) es)) \<and>
     ownKeys (literalFields r') =
       ownKeys (literalFields r) \<union>
       (set (concat (map (assertedLiteral_spec stc num) es)) - {''__proto__''})"
  "readOnlyFields (resultOf (handleOr stc num es r)) = readOnlyFields r \<and>
   literalFields (resultOf (handleOr stc num es r)) = literalFields r"
  "readOnlyFields (resultOf (handleOr_loop stc num es bs r)) = readOnlyFields r \<and>
   literalFields (resultOf (handleOr_loop stc num es bs r)) = literalFields r"
proof (induct stc num e r and stc num es r and stc num es r and stc num es bs r
    rule: visitExpr_handleAnd_handleOr_handleOr_loop.induct)
  case (1 snakeToCamel Number target fn args result)
  show ?case
  proof (cases "fn = ''!_''")
    case True
    show ?thesis
    proof (cases args)
      case Nil
      with True show ?thesis
        by (simp add: handleNegation_def)
    next
      case (Cons a rest)
      show ?thesis
      proof (intro allI impI)
        fix r'
        assume "visitExpr snakeToCamel Number (CallExpr target fn args) result = Normal r'"
        with True Cons have "handleNegation snakeToCamel (Some a) result = Normal r'"
          by simp
        with True Cons show
          "set (readOnlyFields r') = set (readOnlyFields result) \<union>
             set (assertedAbsent_spec snakeToCamel (CallExpr target fn args)) \<and>
           ownKeys (literalFields r') = ownKeys (literalFields result) \<union>
             (set (assertedLiteral_spec snakeToCamel Number (CallExpr target fn args)) -
              {''__proto__''})"
          using handleNegation_readOnly [of snakeToCamel a result]
            handleNegation_frame(1) [of snakeToCamel "Some a" result]
          by simp
      qed
    qed
  next
    case notNeg: False
    show ?thesis
    proof (cases "fn = ''_==_''")
      case True
      show ?thesis
      proof (intro allI impI)
        fix r'
        assume "visitExpr snakeToCamel Number (CallExpr target fn args) result = Normal r'"
        with True have "handleEquality snakeToCamel Number args result = Normal r'"
          by simp
        with True show
          "set (readOnlyFields r') = set (readOnlyFields result) \<union>
             set (assertedAbsent_spec snakeToCamel (CallExpr target fn args)) \<and>
           ownKeys (literalFields r') = ownKeys (literalFields result) \<union>
             (set (assertedLiteral_spec snakeToCamel Number (CallExpr target fn args)) -
              {''__proto__''})"
          using handleEquality_fields(1) [of snakeToCamel Number args result]
            handleEquality_fields(2) [of snakeToCamel Number args result target]
          by (simp del: assertedLiteral_spec.simps)
      qed
    next
      case notEq: False
      show ?thesis
      proof (cases "fn = ''_&&_''")
        case True
        with 1(1) notNeg notEq show ?thesis by simp
      next
        case notAnd: False
        show ?thesis
        proof (cases "fn = ''_||_''")
          case True
          with 1(2) notNeg notEq notAnd show ?thesis by auto
        next
          case False
          with notNeg notEq notAnd show ?thesis by simp
        qed
      qed
    qed
  qed
next
  case (10 snakeToCamel Number arg rest result)
  show ?case
  proof (cases "visitExpr snakeToCamel Number arg result")
    case (Normal result')
    with 10(1) 10(2) [OF Normal] show ?thesis
      by simp blast
  next
    case (Abrupt message result')
    then show ?thesis
      by simp
  qed
next
  case (11 snakeToCamel Number args result)
  then show ?case by simp
next
  case (13 snakeToCamel Number arg rest branches result)
  then show ?case
    by (cases "visitExpr snakeToCamel Number arg createEmptyResult") auto
qed simp_all

subsection \<open>What a result holds as branches\<close>

text \<open>
  The branches in \<open>unionGroups\<close> after a visit are the ones that were there and branches
  of the Branch Composer for the operands of \<open>disjunctionOperands_spec\<close>; when the visit
  returns, they are exactly these, in order. The entry point passes the three
  collections of the visit on, \<open>readOnlyFields\<close> up to repetitions.
\<close>

lemma branchComposer_spec_append:
  "branchComposer_spec stc num (xs @ ys) =
     branchComposer_spec stc num xs @ branchComposer_spec stc num ys"
  by (simp add: branchComposer_spec_def)

lemma handleOr_loop_groups:
  "set (unionGroups (resultOf (handleOr_loop stc num es bs r))) \<subseteq>
     set (unionGroups r) \<union> set bs \<union> set (branchComposer_spec stc num es)"
proof (cases "\<forall>operand \<in> set es. \<exists>b. visitExpr stc num operand createEmptyResult = Normal b")
  case True
  then show ?thesis
    by (auto simp: handleOr_loop_normal)
next
  case False
  then have "\<exists>operand \<in> set es. \<exists>m b. visitExpr stc num operand createEmptyResult = Abrupt m b"
    by (metis outcome.exhaust)
  then obtain m where "handleOr_loop stc num es bs r = Abrupt m r"
    using handleOr_loop_abrupt by blast
  then show ?thesis
    by auto
qed

lemma visit_groups_subset:
  "set (unionGroups (resultOf (visitExpr stc num e r))) \<subseteq>
     set (unionGroups r) \<union> set (branchComposer_spec stc num (disjunctionOperands_spec e))"
  "set (unionGroups (resultOf (handleAnd stc num es r))) \<subseteq>
     set (unionGroups r) \<union>
     set (branchComposer_spec stc num (concat (map disjunctionOperands_spec es)))"
  "set (unionGroups (resultOf (handleOr stc num es r))) \<subseteq>
     set (unionGroups r) \<union> set (branchComposer_spec stc num es)"
  "set (unionGroups (resultOf (handleOr_loop stc num es bs r))) \<subseteq>
     set (unionGroups r) \<union> set bs \<union> set (branchComposer_spec stc num es)"
proof (induct stc num e r and stc num es r and stc num es r and stc num es bs r
    rule: visitExpr_handleAnd_handleOr_handleOr_loop.induct)
  case (1 snakeToCamel Number target fn args result)
  show ?case
  proof (cases "fn = ''!_''")
    case True
    then show ?thesis
      by (simp add: handleNegation_frame branchComposer_spec_Nil)
  next
    case notNeg: False
    show ?thesis
    proof (cases "fn = ''_==_''")
      case True
      then show ?thesis
        by (simp add: handleEquality_frame branchComposer_spec_Nil)
    next
      case notEq: False
      show ?thesis
      proof (cases "fn = ''_&&_''")
        case True
        with 1(1) notNeg notEq show ?thesis by simp
      next
        case notAnd: False
        show ?thesis
        proof (cases "fn = ''_||_''")
          case True
          with 1(2) notNeg notEq notAnd show ?thesis by simp
        next
          case False
          with notNeg notEq notAnd show ?thesis by simp
        qed
      qed
    qed
  qed
next
  case (10 snakeToCamel Number arg rest result)
  show ?case
  proof (cases "visitExpr snakeToCamel Number arg result")
    case (Normal result')
    with 10(1) 10(2) [OF Normal] show ?thesis
      by (simp add: branchComposer_spec_append) blast
  next
    case (Abrupt message result')
    with 10(1) show ?thesis
      by (simp add: branchComposer_spec_append) blast
  qed
next
  case (11 snakeToCamel Number args result)
  show ?case
    using handleOr_loop_groups [of snakeToCamel Number args "[]" result] by simp
next
  case (12 snakeToCamel Number branches result)
  show ?case
    by (rule handleOr_loop_groups)
next
  case (13 snakeToCamel Number arg rest branches result)
  show ?case
    by (rule handleOr_loop_groups)
qed simp_all

lemma visit_groups_exact:
  "\<forall>r'. visitExpr stc num e r = Normal r' \<longrightarrow>
     unionGroups r' = unionGroups r @ branchComposer_spec stc num (disjunctionOperands_spec e)"
  "\<forall>r'. handleAnd stc num es r = Normal r' \<longrightarrow>
     unionGroups r' =
       unionGroups r @ branchComposer_spec stc num (concat (map disjunctionOperands_spec es))"
  "\<forall>r'. handleOr stc num es r = Normal r' \<longrightarrow>
     unionGroups r' = unionGroups r @ branchComposer_spec stc num es"
  "\<forall>r'. handleOr_loop stc num es bs r = Normal r' \<longrightarrow>
     unionGroups r' = unionGroups r @ bs @ branchComposer_spec stc num es"
proof (induct stc num e r and stc num es r and stc num es r and stc num es bs r
    rule: visitExpr_handleAnd_handleOr_handleOr_loop.induct)
  case (1 snakeToCamel Number target fn args result)
  show ?case
  proof (cases "fn = ''!_''")
    case True
    show ?thesis
    proof (intro allI impI)
      fix r'
      assume "visitExpr snakeToCamel Number (CallExpr target fn args) result = Normal r'"
      with True have "handleNegation snakeToCamel (case args of [] \<Rightarrow> None | a # x \<Rightarrow> Some a)
          result = Normal r'"
        by simp
      then have "unionGroups r' = unionGroups result"
        using handleNegation_frame(4)
          [of snakeToCamel "case args of [] \<Rightarrow> None | a # x \<Rightarrow> Some a" result]
        by simp
      with True show "unionGroups r' = unionGroups result @
          branchComposer_spec snakeToCamel Number
            (disjunctionOperands_spec (CallExpr target fn args))"
        by (simp add: branchComposer_spec_Nil)
    qed
  next
    case notNeg: False
    show ?thesis
    proof (cases "fn = ''_==_''")
      case True
      show ?thesis
      proof (intro allI impI)
        fix r'
        assume "visitExpr snakeToCamel Number (CallExpr target fn args) result = Normal r'"
        with True have "handleEquality snakeToCamel Number args result = Normal r'"
          by simp
        then have "unionGroups r' = unionGroups result"
          using handleEquality_frame(3) [of snakeToCamel Number args result] by simp
        with True show "unionGroups r' = unionGroups result @
            branchComposer_spec snakeToCamel Number
              (disjunctionOperands_spec (CallExpr target fn args))"
          by (simp add: branchComposer_spec_Nil)
      qed
    next
      case notEq: False
      show ?thesis
      proof (cases "fn = ''_&&_''")
        case True
        with 1(1) notNeg notEq show ?thesis by simp
      next
        case notAnd: False
        show ?thesis
        proof (cases "fn = ''_||_''")
          case True
          with 1(2) notNeg notEq notAnd show ?thesis by simp
        next
          case False
          with notNeg notEq notAnd show ?thesis
            by (simp add: branchComposer_spec_Nil)
        qed
      qed
    qed
  qed
next
  case (10 snakeToCamel Number arg rest result)
  show ?case
  proof (cases "visitExpr snakeToCamel Number arg result")
    case (Normal result')
    with 10(1) 10(2) [OF Normal] show ?thesis
      by (simp add: branchComposer_spec_append)
  next
    case (Abrupt message result')
    then show ?thesis
      by simp
  qed
next
  case (11 snakeToCamel Number args result)
  then show ?case by simp
next
  case (12 snakeToCamel Number branches result)
  show ?case by (simp add: branchComposer_spec_Nil)
next
  case (13 snakeToCamel Number arg rest branches result)
  show ?case
  proof (cases "visitExpr snakeToCamel Number arg createEmptyResult")
    case (Normal branchResult)
    with 13(2) [OF Normal] show ?thesis
      by (simp add: branchComposer_spec_Cons)
  next
    case (Abrupt message branchResult)
    then show ?thesis by simp
  qed
qed (simp_all add: branchComposer_spec_Nil)

lemma parse_fields_of_visit:
  assumes "trim celExpression \<noteq> []" and "parse celExpression = Inr (Some e)"
  shows "set (readOnlyFields (parseCELExpression parse stc num celExpression)) =
           set (readOnlyFields (resultOf (visitExpr stc num e createEmptyResult)))"
    and "literalFields (parseCELExpression parse stc num celExpression) =
           literalFields (resultOf (visitExpr stc num e createEmptyResult))"
    and "unionGroups (parseCELExpression parse stc num celExpression) =
           unionGroups (resultOf (visitExpr stc num e createEmptyResult))"
proof -
  let ?visit = "visitExpr stc num e createEmptyResult"
  show "set (readOnlyFields (parseCELExpression parse stc num celExpression)) =
      set (readOnlyFields (resultOf ?visit))"
    using assms
    by (cases ?visit) (simp_all add: parseCELExpression_def deduplicateResult_def set_dedup)
  show "literalFields (parseCELExpression parse stc num celExpression) =
      literalFields (resultOf ?visit)"
    using assms
    by (cases ?visit) (simp_all add: parseCELExpression_def deduplicateResult_def)
  show "unionGroups (parseCELExpression parse stc num celExpression) =
      unionGroups (resultOf ?visit)"
    using assms
    by (cases ?visit) (simp_all add: parseCELExpression_def deduplicateResult_def)
qed

lemma scope_bound:
  "set (readOnlyFields (resultOf (visitExpr stc num e r))) \<inter>
     ownKeys (literalFields (resultOf (visitExpr stc num e r))) \<subseteq>
     (set (readOnlyFields r) \<union> set (assertedAbsent_spec stc e)) \<inter>
     (ownKeys (literalFields r) \<union> set (assertedLiteral_spec stc num e))"
  using visit_fields_subset(1) [of stc num e r] by blast

lemma branch_bound:
  assumes "branch \<in> set (branchComposer_spec stc num operands)"
  shows "\<exists>operand \<in> set operands.
      set (readOnlyFields branch) \<inter> ownKeys (literalFields branch) \<subseteq>
        set (assertedAbsent_spec stc operand) \<inter> set (assertedLiteral_spec stc num operand)"
proof -
  from assms obtain operand where "operand \<in> set operands"
    and "readOnlyFields branch =
      readOnlyFields (resultOf (visitExpr stc num operand createEmptyResult))"
    and "literalFields branch =
      literalFields (resultOf (visitExpr stc num operand createEmptyResult))"
    by (auto simp: branchComposer_spec_def)
  with scope_bound [of stc num operand createEmptyResult] show ?thesis
    by (auto simp: createEmptyResult_def)
qed

lemma returned_branch_bound:
  assumes "trim celExpression \<noteq> []" and "parse celExpression = Inr (Some e)"
    and "branch \<in> set (unionGroups (parseCELExpression parse stc num celExpression))"
  shows "\<exists>operand \<in> set (disjunctionOperands_spec e).
      set (readOnlyFields branch) \<inter> ownKeys (literalFields branch) \<subseteq>
        set (assertedAbsent_spec stc operand) \<inter> set (assertedLiteral_spec stc num operand)"
proof -
  from assms have "branch \<in> set (unionGroups (resultOf (visitExpr stc num e createEmptyResult)))"
    by (simp add: parse_fields_of_visit(3))
  with visit_groups_subset(1) [of stc num e createEmptyResult]
  have "branch \<in> set (branchComposer_spec stc num (disjunctionOperands_spec e))"
    by (auto simp: createEmptyResult_def)
  then show ?thesis
    by (rule branch_bound)
qed

lemma returned_top_bound:
  assumes "trim celExpression \<noteq> []" and "parse celExpression = Inr (Some e)"
  shows "set (readOnlyFields (parseCELExpression parse stc num celExpression)) \<inter>
      ownKeys (literalFields (parseCELExpression parse stc num celExpression)) \<subseteq>
      set (assertedAbsent_spec stc e) \<inter> set (assertedLiteral_spec stc num e)"
  using scope_bound [of stc num e createEmptyResult] assms
  by (simp add: parse_fields_of_visit createEmptyResult_def)

lemma returned_exact:
  assumes "trim celExpression \<noteq> []" and "parse celExpression = Inr (Some e)"
    and "visitExpr stc num e createEmptyResult = Normal r'"
  shows "set (readOnlyFields (parseCELExpression parse stc num celExpression)) =
           set (assertedAbsent_spec stc e)"
    and "ownKeys (literalFields (parseCELExpression parse stc num celExpression)) =
           set (assertedLiteral_spec stc num e) - {''__proto__''}"
    and "unionGroups (parseCELExpression parse stc num celExpression) =
           branchComposer_spec stc num (disjunctionOperands_spec e)"
  using assms visit_fields_exact(1) [of stc num e createEmptyResult]
    visit_groups_exact(1) [of stc num e createEmptyResult]
  by (simp_all add: parse_fields_of_visit createEmptyResult_def)

subsection \<open>Nested paths\<close>

lemma dotted_snoc: "xs \<noteq> [] \<Longrightarrow> dotted (xs @ [s]) = dotted xs @ ''.'' @ s"
  by (induction xs rule: dotted.induct) auto

lemma dotted_nonempty: "p \<noteq> [] \<Longrightarrow> dotted (p # segs) \<noteq> []"
  by (cases segs) auto

lemma js_split_no_sep: "sep \<notin> set s \<Longrightarrow> js_split sep (s @ sep # t) = s # js_split sep t"
  by (induction s) (auto split: list.split)

lemma js_split_plain: "sep \<notin> set s \<Longrightarrow> js_split sep s = [s]"
  by (induction s) (auto split: list.split)

lemma js_split_dotted:
  "\<forall>s \<in> set (p # segs). CHR ''.'' \<notin> set s \<Longrightarrow> js_split (CHR ''.'') (dotted (p # segs)) = p # segs"
proof (induction segs arbitrary: p)
  case Nil
  then show ?case by (simp add: js_split_plain)
next
  case (Cons c rest)
  then have "js_split (CHR ''.'') (dotted (c # rest)) = c # rest"
    by simp
  moreover from Cons.prems have "CHR ''.'' \<notin> set p"
    by simp
  ultimately show ?case
    using js_split_no_sep [of "CHR ''.''" p "dotted (c # rest)"] by simp
qed

lemma extractFieldPath_foldl_select:
  "p \<noteq> [] \<Longrightarrow>
   extractFieldPath (foldl select (this_field p) segs) = Some (dotted (p # segs))"
proof (induction segs rule: rev_induct)
  case Nil
  show ?case by simp
next
  case (snoc s segs)
  note operand = snoc.IH [OF snoc.prems]
  from snoc.prems have nonempty: "dotted (p # segs) \<noteq> []"
    by (rule dotted_nonempty)
  have "dotted (p # segs @ [s]) = dotted (p # segs) @ ''.'' @ s"
    using dotted_snoc [of "p # segs" s] by simp
  with operand nonempty show ?case
    by simp
qed

text \<open>
  An equality of a literal with a path of two or more segments goes to
  \<open>addReadOnlyField\<close> with the dotted path, which splits back into the segments.
\<close>

lemma nested_equality_visit:
  assumes "p \<noteq> []" and "\<forall>s \<in> set (p # c # rest). CHR ''.'' \<notin> set s"
    and "extractConstant num v = Some lit"
  shows "visitExpr stc num (equals (foldl select (this_field p) (c # rest)) v) r =
           addReadOnlyField stc (dotted (p # c # rest)) r \<and>
         js_split (CHR ''.'') (dotted (p # c # rest)) = p # c # rest"
proof -
  have path: "extractFieldPath (foldl select (this_field p) (c # rest)) =
      Some (dotted (p # c # rest))"
    using assms(1) by (rule extractFieldPath_foldl_select)
  have split: "js_split (CHR ''.'') (dotted (p # c # rest)) = p # c # rest"
    using assms(2) by (rule js_split_dotted)
  have "dotted (p # c # rest) \<noteq> []" and "CHR ''.'' \<in> set (dotted (p # c # rest))"
    by simp_all
  then have "processEqualityPair stc num (foldl select (this_field p) (c # rest)) v r =
      addReadOnlyField stc (dotted (p # c # rest)) r"
    unfolding processEqualityPair_def path using assms(3) by simp
  with assms(3) split show ?thesis
    by (simp add: handleEquality_pair del: foldl_Cons)
qed

text \<open>
  Where the camel-cased parent is not the name of a property of \<^verbatim>\<open>Object.prototype\<close>, the
  child is recorded under the parent; the literal and the segments after the second
  leave no trace.
\<close>

lemma nested_equality_records_child:
  assumes "p \<noteq> []" and "\<forall>s \<in> set (p # c # rest). CHR ''.'' \<notin> set s"
    and "extractConstant num v = Some lit"
    and "stc p \<notin> set objectPrototypeProperties"
  shows "visitExpr stc num (equals (foldl select (this_field p) (c # rest)) v) createEmptyResult =
           Normal (createEmptyResult\<lparr>nestedConstraints := [(stc p, [stc c])]\<rparr>)"
proof -
  from nested_equality_visit [OF assms(1-3), of stc createEmptyResult]
  have "visitExpr stc num (equals (foldl select (this_field p) (c # rest)) v) createEmptyResult =
      addReadOnlyField stc (dotted (p # c # rest)) createEmptyResult"
    and split: "js_split (CHR ''.'') (dotted (p # c # rest)) = p # c # rest"
    by simp_all
  moreover have "addReadOnlyField stc (dotted (p # c # rest)) createEmptyResult =
      Normal (createEmptyResult\<lparr>nestedConstraints := [(stc p, [stc c])]\<rparr>)"
    unfolding addReadOnlyField_def split using assms(4)
    by (simp add: createEmptyResult_def)
  ultimately show ?thesis
    by simp
qed

text \<open>
  The handler of \<open>parseCELExpression\<close> also catches what the visit throws. The result
  then keeps what the visit had recorded before, under the message of a parse failure:
  as for \<^verbatim>\<open>!this.a && this.constructor.b == ""\<close>.
\<close>

lemma visit_failure_keeps_partial_result:
  assumes "trim celExpression \<noteq> []"
    and "stc ''constructor'' = ''constructor''"
    and "parse celExpression =
      Inr (Some (conjunction (negation (this_field ''a''))
                   (equals (select (this_field ''constructor'') ''b'') empty_string)))"
  shows "parseCELExpression parse stc num celExpression =
     createEmptyResult\<lparr>readOnlyFields := [stc ''a''],
       errors := [failedToParse celExpression pushIsNotAFunction]\<rparr>"
  using assms
  by (simp add: parseCELExpression_def handleNegation_def handleEquality_pair
      processEqualityPair_def addReadOnlyField_def objectPrototypeProperties_def
      createEmptyResult_def)

subsection \<open>The module's tests, replayed on the model\<close>

text \<open>
  Cases of the module's test file, with the tree the parser builds for the text and the
  result the test expects (\<^verbatim>\<open>""\<close> for the empty string literal; the integer \<open>n\<close> stands
  for the double \<^verbatim>\<open>Number(n)\<close>).
\<close>

lemmas evaluate =
  parseCELExpression_def nonblank_str isWhiteSpace_def handleNegation_def handleEquality_pair
  processEqualityPair_def addReadOnlyField_def objectPrototypeProperties_def
  hasBranchConstraints_def deduplicateResult_def dedup_def createEmptyResult_def

lemma test_mixed_and_or:
  "parseCELExpression
     (parser_returning (conjunction (equals (this_field ''field1'') empty_string)
        (disjunction (equals (this_field ''field2'') int_zero)
                     (equals (this_field ''field3'') (ConstExpr (BoolValue False))))))
     snakeToCamel_model Number_model
     (str ''this.field1 == \"\" && (this.field2 == 0 || this.field3 == false)'') =
   (createEmptyResult\<lparr>literalFields := [(''field1'', LString [])],
      unionGroups :=
        [\<lparr>readOnlyFields = [], literalFields = [(''field2'', LNumber 0)], nestedConstraints = []\<rparr>,
         \<lparr>readOnlyFields = [], literalFields = [(''field3'', LBoolean False)],
          nestedConstraints = []\<rparr>]\<rparr> :: int CELParseResult)"
  by (simp add: evaluate)

lemma test_two_disjunctions:
  "parseCELExpression
     (parser_returning (conjunction
        (disjunction (equals (this_field ''a'') empty_string) (equals (this_field ''b'') empty_string))
        (disjunction (equals (this_field ''c'') empty_string) (equals (this_field ''d'') empty_string))))
     snakeToCamel_model Number_model
     (str ''(this.a == \"\" || this.b == \"\") && (this.c == \"\" || this.d == \"\")'') =
   (createEmptyResult\<lparr>unionGroups :=
        [\<lparr>readOnlyFields = [], literalFields = [(''a'', LString [])], nestedConstraints = []\<rparr>,
         \<lparr>readOnlyFields = [], literalFields = [(''b'', LString [])], nestedConstraints = []\<rparr>,
         \<lparr>readOnlyFields = [], literalFields = [(''c'', LString [])], nestedConstraints = []\<rparr>,
         \<lparr>readOnlyFields = [], literalFields = [(''d'', LString [])], nestedConstraints = []\<rparr>]\<rparr>
    :: int CELParseResult)"
  by (simp add: evaluate)

lemma test_duplicate_nested:
  "parseCELExpression
     (parser_returning (conjunction
        (equals (select (this_field ''parent'') ''child'') empty_string)
        (equals (select (this_field ''parent'') ''child'') int_zero)))
     snakeToCamel_model Number_model (str ''this.parent.child == \"\" && this.parent.child == 0'') =
   (createEmptyResult\<lparr>nestedConstraints := [(''parent'', [''child''])]\<rparr> :: int CELParseResult)"
  by (simp add: evaluate)

lemma test_deep_nested:
  "parseCELExpression
     (parser_returning
        (equals (select (select (this_field ''parent'') ''child'') ''grandchild'') empty_string))
     snakeToCamel_model Number_model (str ''this.parent.child.grandchild == \"\"'') =
   (createEmptyResult\<lparr>nestedConstraints := [(''parent'', [''child''])]\<rparr> :: int CELParseResult)"
  by (simp add: evaluate)

lemma test_reversed_comparison:
  "parseCELExpression
     (parser_returning (equals (ConstExpr (StringValue (str ''literal''))) (this_field ''field'')))
     snakeToCamel_model Number_model (str ''\"literal\" == this.field'') =
   (createEmptyResult\<lparr>literalFields := [(''field'', LString (str ''literal''))]\<rparr>
    :: int CELParseResult)"
  by (simp add: evaluate)

lemma test_not_rooted_at_this:
  "parseCELExpression
     (parser_returning (equals (IdentExpr ''field'') empty_string))
     snakeToCamel_model Number_model (str ''field == \"\"'') = (createEmptyResult :: int CELParseResult)"
  by (simp add: evaluate)

lemma test_unsupported_operator:
  "parseCELExpression
     (parser_returning (CallExpr None ''_>_'' [this_field ''field'', ConstExpr (Int64Value 5)]))
     snakeToCamel_model Number_model (str ''this.field > 5'') = (createEmptyResult :: int CELParseResult)"
  by (simp add: evaluate)

lemma test_snake_case:
  "parseCELExpression
     (parser_returning (equals (select (this_field ''parent_field'') ''child_field'') empty_string))
     snakeToCamel_model Number_model (str ''this.parent_field.child_field == \"\"'') =
   (createEmptyResult\<lparr>nestedConstraints := [(''parentField'', [''childField''])]\<rparr>
    :: int CELParseResult)"
  by (simp add: evaluate char_of_def bit_Suc_0_iff)

text \<open>
  C1, as stated, fails: analysing \<^verbatim>\<open>!this.field && this.field == ""\<close> puts \<open>field\<close>
  into \<open>readOnlyFields\<close> and into \<open>literalFields\<close> of the same result. Neither recorder
  looks at the other collection.
\<close>

theorem fields_exclusive_counterexample:
  "parseCELExpression
     (parser_returning (conjunction (negation (this_field ''field''))
                                    (equals (this_field ''field'') empty_string)))
     snakeToCamel_model Number_model (str ''!this.field && this.field == \"\"'') =
     (createEmptyResult\<lparr>readOnlyFields := [''field''],
        literalFields := [(''field'', LString [])]\<rparr> :: int CELParseResult) \<and>
   ''field'' \<in> set (readOnlyFields (parseCELExpression
     (parser_returning (conjunction (negation (this_field ''field''))
                                    (equals (this_field ''field'') empty_string)))
     snakeToCamel_model Number_model (str ''!this.field && this.field == \"\"'') :: int CELParseResult)) \<and>
   ''field'' \<in> ownKeys (literalFields (parseCELExpression
     (parser_returning (conjunction (negation (this_field ''field''))
                                    (equals (this_field ''field'') empty_string)))
     snakeToCamel_model Number_model (str ''!this.field && this.field == \"\"'') :: int CELParseResult))"
  by (simp add: parseCELExpression_def nonblank_str isWhiteSpace_def handleNegation_def addReadOnlyField_def
      handleEquality_pair processEqualityPair_def createEmptyResult_def deduplicateResult_def
      dedup_def)

text \<open>
  C1, amended. After the visit of an expression into a result scope, a field name is
  both in \<open>readOnlyFields\<close> and a key of \<open>literalFields\<close> only if it was in
  \<open>readOnlyFields\<close> before or the expression asserts that top-level field absent, and it
  was a key of \<open>literalFields\<close> before or the expression pins that top-level field to a
  literal (directly or under conjunction, compared by camel-cased name). For the
  analysis of an expression text that is not blank and that the parser turns into a
  tree:

    \<^item> a name is in both top-level collections of the returned result only if the
      expression asserts it both ways, and for every branch of the returned
      \<open>unionGroups\<close> there is an operand among \<open>disjunctionOperands_spec\<close> of the expression
      such that a name is in both collections of the branch only if that operand asserts
      it both ways;

    \<^item> so when neither the expression nor any of these operands asserts a field both
      ways, \<open>readOnlyFields\<close> and \<open>literalFields\<close> share no name, at top level and in
      every returned branch;

    \<^item> when the visit returns, a name other than \<^verbatim>\<open>__proto__\<close> is in both top-level
      collections exactly when the expression asserts it both ways, and the returned
      \<open>unionGroups\<close> are exactly the branches of the Branch Composer for these operands
      (nothing is said of the name \<^verbatim>\<open>__proto__\<close> here: it can be asserted both ways and
      is never a key of \<open>literalFields\<close>).

  Last, the conjunctions \<^verbatim>\<open>!this.f && this.f == c\<close> and \<^verbatim>\<open>!has(this.f) && this.f == c\<close>
  with a literal constant \<open>c\<close>, visited into the empty scope, return with the
  camel-cased name of \<open>f\<close> in both, for every non-empty \<open>f\<close> without a dot whose
  camel-cased name is not \<^verbatim>\<open>__proto__\<close>.
\<close>

theorem fields_exclusive_unless_asserted_both_ways:
  "set (readOnlyFields (resultOf (visitExpr stc num e r))) \<inter>
     ownKeys (literalFields (resultOf (visitExpr stc num e r))) \<subseteq>
     (set (readOnlyFields r) \<union> set (assertedAbsent_spec stc e)) \<inter>
     (ownKeys (literalFields r) \<union> set (assertedLiteral_spec stc num e)) \<and>
   (trim celExpression \<noteq> [] \<and> parse celExpression = Inr (Some e) \<longrightarrow>
      set (readOnlyFields (parseCELExpression parse stc num celExpression)) \<inter>
        ownKeys (literalFields (parseCELExpression parse stc num celExpression)) \<subseteq>
        set (assertedAbsent_spec stc e) \<inter> set (assertedLiteral_spec stc num e) \<and>
      (\<forall>branch \<in> set (unionGroups (parseCELExpression parse stc num celExpression)).
         \<exists>operand \<in> set (disjunctionOperands_spec e).
           set (readOnlyFields branch) \<inter> ownKeys (literalFields branch) \<subseteq>
             set (assertedAbsent_spec stc operand) \<inter>
             set (assertedLiteral_spec stc num operand))) \<and>
   (trim celExpression \<noteq> [] \<and> parse celExpression = Inr (Some e) \<and>
    set (assertedAbsent_spec stc e) \<inter> set (assertedLiteral_spec stc num e) = {} \<and>
    (\<forall>operand \<in> set (disjunctionOperands_spec e).
       set (assertedAbsent_spec stc operand) \<inter> set (assertedLiteral_spec stc num operand) = {})
    \<longrightarrow>
      set (readOnlyFields (parseCELExpression parse stc num celExpression)) \<inter>
        ownKeys (literalFields (parseCELExpression parse stc num celExpression)) = {} \<and>
      (\<forall>branch \<in> set (unionGroups (parseCELExpression parse stc num celExpression)).
         set (readOnlyFields branch) \<inter> ownKeys (literalFields branch) = {})) \<and>
   (trim celExpression \<noteq> [] \<and> parse celExpression = Inr (Some e) \<and>
    visitExpr stc num e createEmptyResult = Normal r' \<longrightarrow>
      (\<forall>name. name \<noteq> ''__proto__'' \<longrightarrow>
         (name \<in> set (readOnlyFields (parseCELExpression parse stc num celExpression)) \<and>
          name \<in> ownKeys (literalFields (parseCELExpression parse stc num celExpression))) =
         (name \<in> set (assertedAbsent_spec stc e) \<and>
          name \<in> set (assertedLiteral_spec stc num e))) \<and>
      unionGroups (parseCELExpression parse stc num celExpression) =
        branchComposer_spec stc num (disjunctionOperands_spec e)) \<and>
   (f \<noteq> [] \<and> CHR ''.'' \<notin> set f \<and> stc f \<noteq> ''__proto__'' \<and> extractConstant num c = Some v \<longrightarrow>
      visitExpr stc num (conjunction (negation (this_field f)) (equals (this_field f) c))
        createEmptyResult =
        Normal (createEmptyResult\<lparr>readOnlyFields := [stc f], literalFields := [(stc f, v)]\<rparr>) \<and>
      visitExpr stc num
        (conjunction (negation (has_call (this_field f))) (equals (this_field f) c))
        createEmptyResult =
        Normal (createEmptyResult\<lparr>readOnlyFields := [stc f], literalFields := [(stc f, v)]\<rparr>))"
proof -
  have bound: "set (readOnlyFields (parseCELExpression parse stc num celExpression)) \<inter>
        ownKeys (literalFields (parseCELExpression parse stc num celExpression)) \<subseteq>
        set (assertedAbsent_spec stc e) \<inter> set (assertedLiteral_spec stc num e) \<and>
      (\<forall>branch \<in> set (unionGroups (parseCELExpression parse stc num celExpression)).
         \<exists>operand \<in> set (disjunctionOperands_spec e).
           set (readOnlyFields branch) \<inter> ownKeys (literalFields branch) \<subseteq>
             set (assertedAbsent_spec stc operand) \<inter>
             set (assertedLiteral_spec stc num operand))"
    if "trim celExpression \<noteq> []" "parse celExpression = Inr (Some e)"
    using that returned_top_bound
        [where parse = parse and celExpression = celExpression and e = e
          and stc = stc and num = num]
      returned_branch_bound
        [where parse = parse and celExpression = celExpression and e = e
          and stc = stc and num = num]
    by blast
  have disjoint: "set (readOnlyFields (parseCELExpression parse stc num celExpression)) \<inter>
        ownKeys (literalFields (parseCELExpression parse stc num celExpression)) = {} \<and>
      (\<forall>branch \<in> set (unionGroups (parseCELExpression parse stc num celExpression)).
         set (readOnlyFields branch) \<inter> ownKeys (literalFields branch) = {})"
    if source: "trim celExpression \<noteq> []" "parse celExpression = Inr (Some e)"
      and top: "set (assertedAbsent_spec stc e) \<inter> set (assertedLiteral_spec stc num e) = {}"
      and operands: "\<forall>operand \<in> set (disjunctionOperands_spec e).
        set (assertedAbsent_spec stc operand) \<inter> set (assertedLiteral_spec stc num operand) = {}"
  proof (intro conjI ballI)
    from source top returned_top_bound
        [where parse = parse and celExpression = celExpression and e = e
          and stc = stc and num = num]
    show "set (readOnlyFields (parseCELExpression parse stc num celExpression)) \<inter>
        ownKeys (literalFields (parseCELExpression parse stc num celExpression)) = {}"
      by simp
  next
    fix branch
    assume "branch \<in> set (unionGroups (parseCELExpression parse stc num celExpression))"
    with source returned_branch_bound
        [where parse = parse and celExpression = celExpression and e = e
          and stc = stc and num = num] obtain operand
      where "operand \<in> set (disjunctionOperands_spec e)"
        and "set (readOnlyFields branch) \<inter> ownKeys (literalFields branch) \<subseteq>
          set (assertedAbsent_spec stc operand) \<inter> set (assertedLiteral_spec stc num operand)"
      by blast
    with operands show "set (readOnlyFields branch) \<inter> ownKeys (literalFields branch) = {}"
      by simp
  qed
  have exact: "(\<forall>name. name \<noteq> ''__proto__'' \<longrightarrow>
         (name \<in> set (readOnlyFields (parseCELExpression parse stc num celExpression)) \<and>
          name \<in> ownKeys (literalFields (parseCELExpression parse stc num celExpression))) =
         (name \<in> set (assertedAbsent_spec stc e) \<and>
          name \<in> set (assertedLiteral_spec stc num e))) \<and>
      unionGroups (parseCELExpression parse stc num celExpression) =
        branchComposer_spec stc num (disjunctionOperands_spec e)"
    if "trim celExpression \<noteq> []" "parse celExpression = Inr (Some e)"
      "visitExpr stc num e createEmptyResult = Normal r'"
    using that returned_exact [where parse = parse and celExpression = celExpression and e = e
        and stc = stc and num = num and r' = r']
    by simp
  have both: "visitExpr stc num (conjunction (negation (this_field f)) (equals (this_field f) c))
        createEmptyResult =
        Normal (createEmptyResult\<lparr>readOnlyFields := [stc f], literalFields := [(stc f, v)]\<rparr>) \<and>
      visitExpr stc num
        (conjunction (negation (has_call (this_field f))) (equals (this_field f) c))
        createEmptyResult =
        Normal (createEmptyResult\<lparr>readOnlyFields := [stc f], literalFields := [(stc f, v)]\<rparr>)"
    if "f \<noteq> []" "CHR ''.'' \<notin> set f" "stc f \<noteq> ''__proto__''" "extractConstant num c = Some v"
    using that
    by (simp add: handleNegation_def addReadOnlyField_def handleEquality_pair
        processEqualityPair_def createEmptyResult_def)
  from scope_bound [of stc num e r] bound disjoint exact both show ?thesis
    by (intro conjI impI) simp_all
qed

theorem fields_exclusive_unless_asserted_both_ways_witness:
  "trim (str ''(!has(this.a) && this.b == 0) || !this.c'') \<noteq> [] \<and>
   disjunctionOperands_spec
     (disjunction
        (conjunction (negation (has_call (this_field ''a''))) (equals (this_field ''b'') int_zero))
        (negation (this_field ''c'')) :: int Expr) =
     [conjunction (negation (has_call (this_field ''a''))) (equals (this_field ''b'') int_zero),
      negation (this_field ''c'')] \<and>
   assertedAbsent_spec snakeToCamel_model
     (disjunction
        (conjunction (negation (has_call (this_field ''a''))) (equals (this_field ''b'') int_zero))
        (negation (this_field ''c'')) :: int Expr) = [] \<and>
   assertedLiteral_spec snakeToCamel_model Number_model
     (disjunction
        (conjunction (negation (has_call (this_field ''a''))) (equals (this_field ''b'') int_zero))
        (negation (this_field ''c'')) :: int Expr) = [] \<and>
   assertedAbsent_spec snakeToCamel_model
     (conjunction (negation (has_call (this_field ''a''))) (equals (this_field ''b'') int_zero)
       :: int Expr) = [''a''] \<and>
   assertedLiteral_spec snakeToCamel_model Number_model
     (conjunction (negation (has_call (this_field ''a''))) (equals (this_field ''b'') int_zero)
       :: int Expr) = [''b''] \<and>
   assertedAbsent_spec snakeToCamel_model (negation (this_field ''c'') :: int Expr) = [''c''] \<and>
   assertedLiteral_spec snakeToCamel_model Number_model (negation (this_field ''c'') :: int Expr) =
     [] \<and>
   visitExpr snakeToCamel_model Number_model
     (disjunction
        (conjunction (negation (has_call (this_field ''a''))) (equals (this_field ''b'') int_zero))
        (negation (this_field ''c'')))
     createEmptyResult =
     Normal (createEmptyResult\<lparr>unionGroups :=
       [\<lparr>readOnlyFields = [''a''], literalFields = [(''b'', LNumber (0::int))],
          nestedConstraints = []\<rparr>,
        \<lparr>readOnlyFields = [''c''], literalFields = [], nestedConstraints = []\<rparr>]\<rparr>) \<and>
   parseCELExpression
     (parser_returning (disjunction
        (conjunction (negation (has_call (this_field ''a''))) (equals (this_field ''b'') int_zero))
        (negation (this_field ''c''))))
     snakeToCamel_model Number_model (str ''(!has(this.a) && this.b == 0) || !this.c'') =
     createEmptyResult\<lparr>unionGroups :=
       [\<lparr>readOnlyFields = [''a''], literalFields = [(''b'', LNumber (0::int))],
          nestedConstraints = []\<rparr>,
        \<lparr>readOnlyFields = [''c''], literalFields = [], nestedConstraints = []\<rparr>]\<rparr> \<and>
   trim (str ''(!this.f && this.f == \"\") || !this.g'') \<noteq> [] \<and>
   assertedAbsent_spec snakeToCamel_model
     (disjunction
        (conjunction (negation (this_field ''f'')) (equals (this_field ''f'') empty_string))
        (negation (this_field ''g'')) :: int Expr) = [] \<and>
   assertedAbsent_spec snakeToCamel_model
     (conjunction (negation (this_field ''f'')) (equals (this_field ''f'') empty_string)
       :: int Expr) = [''f''] \<and>
   assertedLiteral_spec snakeToCamel_model Number_model
     (conjunction (negation (this_field ''f'')) (equals (this_field ''f'') empty_string)
       :: int Expr) = [''f''] \<and>
   parseCELExpression
     (parser_returning (disjunction
        (conjunction (negation (this_field ''f'')) (equals (this_field ''f'') empty_string))
        (negation (this_field ''g''))))
     snakeToCamel_model Number_model (str ''(!this.f && this.f == \"\") || !this.g'') =
     createEmptyResult\<lparr>unionGroups :=
       [\<lparr>readOnlyFields = [''f''], literalFields = [(''f'', LString [] :: int LiteralValue)],
          nestedConstraints = []\<rparr>,
        \<lparr>readOnlyFields = [''g''], literalFields = [], nestedConstraints = []\<rparr>]\<rparr> \<and>
   ''field'' \<noteq> [] \<and> CHR ''.'' \<notin> set ''field'' \<and> snakeToCamel_model ''field'' \<noteq> ''__proto__'' \<and>
   extractConstant Number_model (empty_string :: int Expr) = Some (LString []) \<and>
   visitExpr snakeToCamel_model Number_model
     (conjunction (negation (this_field ''field'')) (equals (this_field ''field'') empty_string))
     createEmptyResult =
     Normal (createEmptyResult\<lparr>readOnlyFields := [''field''],
       literalFields := [(''field'', LString [] :: int LiteralValue)]\<rparr>) \<and>
   visitExpr snakeToCamel_model Number_model
     (conjunction (negation (has_call (this_field ''field'')))
        (equals (this_field ''field'') empty_string))
     createEmptyResult =
     Normal (createEmptyResult\<lparr>readOnlyFields := [''field''],
       literalFields := [(''field'', LString [] :: int LiteralValue)]\<rparr>)"
  using fields_exclusive_unless_asserted_both_ways [of snakeToCamel_model Number_model
      "disjunction
        (conjunction (negation (has_call (this_field ''a''))) (equals (this_field ''b'') int_zero))
        (negation (this_field ''c''))"
      createEmptyResult
      "str ''(!has(this.a) && this.b == 0) || !this.c''"
      "parser_returning (disjunction
        (conjunction (negation (has_call (this_field ''a''))) (equals (this_field ''b'') int_zero))
        (negation (this_field ''c'')))"
      "createEmptyResult\<lparr>unionGroups :=
       [\<lparr>readOnlyFields = [''a''], literalFields = [(''b'', LNumber (0::int))],
          nestedConstraints = []\<rparr>,
        \<lparr>readOnlyFields = [''c''], literalFields = [], nestedConstraints = []\<rparr>]\<rparr>"
      "''field''" empty_string "LString []"]
    fields_exclusive_unless_asserted_both_ways [of snakeToCamel_model Number_model
      "disjunction
        (conjunction (negation (this_field ''f'')) (equals (this_field ''f'') empty_string))
        (negation (this_field ''g''))"
      createEmptyResult
      "str ''(!this.f && this.f == \"\") || !this.g''"
      "parser_returning (disjunction
        (conjunction (negation (this_field ''f'')) (equals (this_field ''f'') empty_string))
        (negation (this_field ''g'')))"
      createEmptyResult "''field''" empty_string "LString []"]
  by (simp add: nonblank_str isWhiteSpace_def topLevelName_def handleNegation_def
      addReadOnlyField_def handleEquality_pair processEqualityPair_def createEmptyResult_def
      branchComposer_spec_def parseCELExpression_def deduplicateResult_def dedup_def
      hasBranchConstraints_def)

text \<open>
  C2. A disjunction that is an operand of another disjunction contributes no branch:
  its own visit into the fresh result leaves \<open>readOnlyFields\<close>, \<open>literalFields\<close> and
  \<open>nestedConstraints\<close> empty, so the fresh result is discarded together with the union
  groups it holds (the branches of the inner operands), and the enclosing disjunction
  has the outcome it has without that operand. If the inner disjunction throws, so does
  the enclosing one, and its result is as it was.
\<close>

theorem nested_disjunction_not_flattened:
  "(visitExpr stc num (CallExpr t ''_||_'' innerArgs) createEmptyResult = Normal b \<longrightarrow>
      readOnlyFields b = [] \<and> literalFields b = [] \<and> nestedConstraints b = [] \<and>
      \<not> hasBranchConstraints b \<and>
      unionGroups b = branchComposer_spec stc num innerArgs \<and>
      visitExpr stc num (CallExpr t' ''_||_'' (pre @ CallExpr t ''_||_'' innerArgs # post)) r =
        visitExpr stc num (CallExpr t' ''_||_'' (pre @ post)) r) \<and>
   (visitExpr stc num (CallExpr t ''_||_'' innerArgs) createEmptyResult = Abrupt m b \<longrightarrow>
      (\<exists>m'. visitExpr stc num (CallExpr t' ''_||_'' (pre @ CallExpr t ''_||_'' innerArgs # post)) r =
         Abrupt m' r))"
proof -
  let ?inner = "CallExpr t ''_||_'' innerArgs"
  have normal:
    "readOnlyFields b = [] \<and> literalFields b = [] \<and> nestedConstraints b = [] \<and>
     \<not> hasBranchConstraints b \<and>
     unionGroups b = branchComposer_spec stc num innerArgs \<and>
     visitExpr stc num (CallExpr t' ''_||_'' (pre @ ?inner # post)) r =
       visitExpr stc num (CallExpr t' ''_||_'' (pre @ post)) r"
    if inner: "visitExpr stc num ?inner createEmptyResult = Normal b"
  proof -
    from inner have empty:
      "readOnlyFields b = [] \<and> literalFields b = [] \<and> nestedConstraints b = [] \<and> errors b = []"
      by (rule visit_disjunction_empty)
    then have no: "\<not> hasBranchConstraints b"
      by (simp add: hasBranchConstraints_def)
    have all: "\<forall>operand \<in> set innerArgs. \<exists>b. visitExpr stc num operand createEmptyResult = Normal b"
    proof (rule ccontr)
      assume "\<not> ?thesis"
      then have "\<exists>operand \<in> set innerArgs. \<exists>m b.
          visitExpr stc num operand createEmptyResult = Abrupt m b"
        by (metis outcome.exhaust)
      then have "\<exists>m. handleOr_loop stc num innerArgs [] createEmptyResult =
          Abrupt m createEmptyResult"
        by (rule handleOr_loop_abrupt)
      with inner show False by simp
    qed
    have groups: "unionGroups b = branchComposer_spec stc num innerArgs"
      using inner handleOr_loop_normal [OF all, of "[]" createEmptyResult]
      by (simp add: createEmptyResult_def)
    from empty have noErrors: "errors b = []"
      by simp
    have "handleOr_loop stc num (pre @ ?inner # post) [] r =
        handleOr_loop stc num (pre @ post) [] r"
      by (rule handleOr_loop_skip [OF inner no noErrors])
    with empty no groups show ?thesis by simp
  qed
  have abrupt:
    "\<exists>m'. visitExpr stc num (CallExpr t' ''_||_'' (pre @ ?inner # post)) r = Abrupt m' r"
    if "visitExpr stc num ?inner createEmptyResult = Abrupt m b"
  proof -
    from that have "\<exists>operand \<in> set (pre @ ?inner # post). \<exists>m b.
        visitExpr stc num operand createEmptyResult = Abrupt m b"
      by auto
    then have "\<exists>m'. handleOr_loop stc num (pre @ ?inner # post) [] r = Abrupt m' r"
      by (rule handleOr_loop_abrupt)
    then show ?thesis by simp
  qed
  from normal abrupt show ?thesis by blast
qed

theorem nested_disjunction_not_flattened_witness:
  "visitExpr snakeToCamel_model Number_model
     (disjunction (equals (this_field ''a'') empty_string) (equals (this_field ''b'') int_zero))
     createEmptyResult =
     Normal (createEmptyResult\<lparr>unionGroups :=
       [\<lparr>readOnlyFields = [], literalFields = [(''a'', LString [])], nestedConstraints = []\<rparr>,
        \<lparr>readOnlyFields = [], literalFields = [(''b'', LNumber 0)], nestedConstraints = []\<rparr>]\<rparr>) \<and>
   visitExpr snakeToCamel_model Number_model
     (disjunction
        (disjunction (equals (this_field ''a'') empty_string) (equals (this_field ''b'') int_zero))
        (equals (this_field ''c'') (ConstExpr (BoolValue False))))
     createEmptyResult =
     Normal (createEmptyResult\<lparr>unionGroups :=
       [\<lparr>readOnlyFields = [], literalFields = [(''c'', LBoolean False)],
         nestedConstraints = []\<rparr>]\<rparr> :: int CELParseResult) \<and>
   visitExpr snakeToCamel_model Number_model
     (CallExpr None ''_||_'' [equals (select (this_field ''constructor'') ''child'') empty_string])
     createEmptyResult = Abrupt pushIsNotAFunction (createEmptyResult :: int CELParseResult) \<and>
   visitExpr snakeToCamel_model Number_model
     (disjunction
        (CallExpr None ''_||_'' [equals (select (this_field ''constructor'') ''child'') empty_string])
        (equals (this_field ''c'') (ConstExpr (BoolValue False))))
     createEmptyResult = Abrupt pushIsNotAFunction (createEmptyResult :: int CELParseResult)"
  using nested_disjunction_not_flattened [of snakeToCamel_model Number_model None
      "[equals (this_field ''a'') empty_string, equals (this_field ''b'') int_zero]"
      "createEmptyResult\<lparr>unionGroups :=
       [\<lparr>readOnlyFields = [], literalFields = [(''a'', LString [])], nestedConstraints = []\<rparr>,
        \<lparr>readOnlyFields = [], literalFields = [(''b'', LNumber 0)], nestedConstraints = []\<rparr>]\<rparr>"
      None "[]" "[equals (this_field ''c'') (ConstExpr (BoolValue False))]" createEmptyResult
      "[]"]
    nested_disjunction_not_flattened [of snakeToCamel_model Number_model None
      "[equals (select (this_field ''constructor'') ''child'') empty_string]"
      createEmptyResult
      None "[]" "[equals (this_field ''c'') (ConstExpr (BoolValue False))]" createEmptyResult
      pushIsNotAFunction]
  by (simp add: handleEquality_pair processEqualityPair_def createEmptyResult_def
      addReadOnlyField_def objectPrototypeProperties_def hasBranchConstraints_def)

text \<open>
  C3. A disjunction contributes only to \<open>unionGroups\<close>: when every operand's visit into
  a fresh empty result returns, the visit of the disjunction returns the result it
  was given with the branches of the Branch Composer appended to \<open>unionGroups\<close>, one per
  operand whose fresh result is non-empty, in operand order, and nothing else changed;
  when an operand's visit throws, the disjunction throws and the result is as it was.
  Analysing \<^verbatim>\<open>this.a == '' || this.b == 0\<close> yields exactly the two branches
  \<open>literalFields = {a: ""}\<close> and \<open>literalFields = {b: 0}\<close>, with every other list and map of
  the branches and of the result empty.
\<close>

theorem disjunction_only_union_groups:
  "((\<forall>operand \<in> set args. \<exists>b. visitExpr stc num operand createEmptyResult = Normal b) \<longrightarrow>
      visitExpr stc num (CallExpr target ''_||_'' args) r =
        Normal (r\<lparr>unionGroups := unionGroups r @ branchComposer_spec stc num args\<rparr>)) \<and>
   ((\<exists>operand \<in> set args. \<exists>m b. visitExpr stc num operand createEmptyResult = Abrupt m b) \<longrightarrow>
      (\<exists>m. visitExpr stc num (CallExpr target ''_||_'' args) r = Abrupt m r)) \<and>
   (trim celExpression \<noteq> [] \<and> stc ''a'' = ''a'' \<and> stc ''b'' = ''b'' \<and>
    parse celExpression =
      Inr (Some (disjunction (equals (this_field ''a'') empty_string)
                             (equals (this_field ''b'') int_zero))) \<longrightarrow>
      parseCELExpression parse stc num celExpression =
        createEmptyResult\<lparr>unionGroups :=
          [\<lparr>readOnlyFields = [], literalFields = [(''a'', LString [])], nestedConstraints = []\<rparr>,
           \<lparr>readOnlyFields = [], literalFields = [(''b'', LNumber (num 0))],
            nestedConstraints = []\<rparr>]\<rparr>)"
proof -
  have normal:
    "visitExpr stc num (CallExpr target ''_||_'' args) r =
        Normal (r\<lparr>unionGroups := unionGroups r @ branchComposer_spec stc num args\<rparr>)"
    if "\<forall>operand \<in> set args. \<exists>b. visitExpr stc num operand createEmptyResult = Normal b"
    using handleOr_loop_normal [OF that, of "[]" r] by simp
  have abrupt: "\<exists>m. visitExpr stc num (CallExpr target ''_||_'' args) r = Abrupt m r"
    if "\<exists>operand \<in> set args. \<exists>m b. visitExpr stc num operand createEmptyResult = Abrupt m b"
    using handleOr_loop_abrupt [OF that, of "[]" r] by simp
  have example:
    "parseCELExpression parse stc num celExpression =
        createEmptyResult\<lparr>unionGroups :=
          [\<lparr>readOnlyFields = [], literalFields = [(''a'', LString [])], nestedConstraints = []\<rparr>,
           \<lparr>readOnlyFields = [], literalFields = [(''b'', LNumber (num 0))],
            nestedConstraints = []\<rparr>]\<rparr>"
    if "trim celExpression \<noteq> []" "stc ''a'' = ''a''" "stc ''b'' = ''b''"
      "parse celExpression =
        Inr (Some (disjunction (equals (this_field ''a'') empty_string)
                               (equals (this_field ''b'') int_zero)))"
    using that
    by (simp add: parseCELExpression_def handleEquality_pair processEqualityPair_def
        createEmptyResult_def deduplicateResult_def dedup_Nil hasBranchConstraints_def)
  from normal abrupt example show ?thesis
    by blast
qed

theorem disjunction_only_union_groups_witness:
  "visitExpr snakeToCamel_model Number_model (equals (this_field ''a'') empty_string) createEmptyResult =
     Normal (createEmptyResult\<lparr>literalFields := [(''a'', LString [])]\<rparr> :: int CELParseResult) \<and>
   visitExpr snakeToCamel_model Number_model (equals (this_field ''b'') int_zero) createEmptyResult =
     Normal (createEmptyResult\<lparr>literalFields := [(''b'', LNumber 0)]\<rparr> :: int CELParseResult) \<and>
   visitExpr snakeToCamel_model Number_model
     (disjunction (equals (this_field ''a'') empty_string) (equals (this_field ''b'') int_zero))
     createEmptyResult =
     Normal (createEmptyResult\<lparr>unionGroups :=
       [\<lparr>readOnlyFields = [], literalFields = [(''a'', LString [])], nestedConstraints = []\<rparr>,
        \<lparr>readOnlyFields = [], literalFields = [(''b'', LNumber 0)], nestedConstraints = []\<rparr>]\<rparr>) \<and>
   visitExpr snakeToCamel_model Number_model
     (equals (select (this_field ''constructor'') ''child'') empty_string) createEmptyResult =
     Abrupt pushIsNotAFunction (createEmptyResult :: int CELParseResult) \<and>
   visitExpr snakeToCamel_model Number_model
     (disjunction (equals (this_field ''a'') empty_string)
        (equals (select (this_field ''constructor'') ''child'') empty_string))
     createEmptyResult = Abrupt pushIsNotAFunction (createEmptyResult :: int CELParseResult) \<and>
   trim (str ''this.a == \"\" || this.b == 0'') \<noteq> [] \<and> snakeToCamel_model ''a'' = ''a'' \<and> snakeToCamel_model ''b'' = ''b'' \<and>
   parseCELExpression
     (parser_returning (disjunction (equals (this_field ''a'') empty_string)
                                    (equals (this_field ''b'') int_zero)))
     snakeToCamel_model Number_model (str ''this.a == \"\" || this.b == 0'') =
     (createEmptyResult\<lparr>unionGroups :=
       [\<lparr>readOnlyFields = [], literalFields = [(''a'', LString [])], nestedConstraints = []\<rparr>,
        \<lparr>readOnlyFields = [], literalFields = [(''b'', LNumber 0)], nestedConstraints = []\<rparr>]\<rparr>
      :: int CELParseResult)"
  using disjunction_only_union_groups [of
      "[equals (this_field ''a'') empty_string, equals (this_field ''b'') int_zero]"
      snakeToCamel_model Number_model None createEmptyResult "str ''this.a == \"\" || this.b == 0''"
      "parser_returning (disjunction (equals (this_field ''a'') empty_string)
                                     (equals (this_field ''b'') int_zero))"]
    disjunction_only_union_groups [of
      "[equals (this_field ''a'') empty_string,
        equals (select (this_field ''constructor'') ''child'') empty_string]"
      snakeToCamel_model Number_model None createEmptyResult "[]" "parser_throwing []"]
  by (simp add: nonblank_str isWhiteSpace_def handleEquality_pair processEqualityPair_def createEmptyResult_def
      addReadOnlyField_def objectPrototypeProperties_def hasBranchConstraints_def)

text \<open>
  C4, as stated, fails on an empty or blank expression string on which the parser
  fails: the guard on \<open>trim\<close> returns before the parser is called, and \<open>errors\<close> stays
  empty.
\<close>

theorem parse_failure_blank_counterexample:
  "parser_throwing (str ''unexpected end of input'') [] =
     (Inl (str ''unexpected end of input'') :: jsstring + int Expr option) \<and>
   parseCELExpression (parser_throwing (str ''unexpected end of input''))
     snakeToCamel_model Number_model [] = (createEmptyResult :: int CELParseResult) \<and>
   errors (parseCELExpression (parser_throwing (str ''unexpected end of input''))
     snakeToCamel_model Number_model [] :: int CELParseResult) = [] \<and>
   length (errors (parseCELExpression (parser_throwing (str ''unexpected end of input''))
     snakeToCamel_model Number_model [] :: int CELParseResult)) \<noteq> 1"
  by (simp add: parseCELExpression_def trim_def createEmptyResult_def)

text \<open>
  C4, amended. For every expression string that is not blank on which the parser fails
  or yields no expression node, the analysis returns the all-empty result with exactly
  one message in \<open>errors\<close>: the rendered parser failure, or the notice that no expression
  was found.
\<close>

theorem parse_failure_result:
  "trim celExpression \<noteq> [] \<Longrightarrow>
   parse celExpression = Inl message \<or> parse celExpression = Inr None \<Longrightarrow>
   parseCELExpression parse stc num celExpression =
     createEmptyResult\<lparr>errors :=
       [case parse celExpression of
          Inl message \<Rightarrow> failedToParse celExpression message
        | Inr e \<Rightarrow> noExpressionFound celExpression]\<rparr>"
  by (auto simp: parseCELExpression_def createEmptyResult_def)

theorem parse_failure_result_witness:
  "trim (str ''invalid expression +++'') \<noteq> [] \<and>
   parseCELExpression (parser_throwing (str ''syntax error'')) snakeToCamel_model Number_model (str ''invalid expression +++'') =
     (createEmptyResult\<lparr>errors := [failedToParse (str ''invalid expression +++'') (str ''syntax error'')]\<rparr> :: int CELParseResult)"
  using parse_failure_result [of "str ''invalid expression +++''" "parser_throwing (str ''syntax error'')"
      "str ''syntax error''" snakeToCamel_model Number_model]
  by (simp add: nonblank_str isWhiteSpace_def)



text \<open>
  C6. The claim holds whenever the camel-cased parent name is not the name of a
  property of \<^verbatim>\<open>Object.prototype\<close>: the second segment is recorded under the first, the
  literal and the later segments are dropped (lemma \<open>nested_equality_records_child\<close>). It
  does not hold for the other parent names, whatever the child, the later segments
  and the literal. As in the analysis of \<^verbatim>\<open>this.constructor.child == ""\<close>: the read
  \<^verbatim>\<open>result.nestedConstraints["constructor"]\<close> finds the inherited function \<^verbatim>\<open>Object\<close>, so
  no array is created; the call of \<^verbatim>\<open>push\<close> on the function throws; and
  \<open>parseCELExpression\<close> returns \<open>nestedConstraints\<close> empty with one message in \<open>errors\<close>,
  that of a parse failure.
\<close>

theorem nested_equality_prototype_parent:
  assumes "trim celExpression \<noteq> []"
    and "p \<noteq> []" and "\<forall>s \<in> set (p # c # rest). CHR ''.'' \<notin> set s"
    and "extractConstant num v = Some lit"
    and "stc p \<in> set objectPrototypeProperties"
    and "parse celExpression = Inr (Some (equals (foldl select (this_field p) (c # rest)) v))"
  shows "parseCELExpression parse stc num celExpression =
     createEmptyResult\<lparr>errors := [failedToParse celExpression pushIsNotAFunction]\<rparr>"
proof -
  from nested_equality_visit [OF assms(2-4), of stc createEmptyResult]
  have "visitExpr stc num (equals (foldl select (this_field p) (c # rest)) v) createEmptyResult =
      addReadOnlyField stc (dotted (p # c # rest)) createEmptyResult"
    and split: "js_split (CHR ''.'') (dotted (p # c # rest)) = p # c # rest"
    by simp_all
  moreover have "addReadOnlyField stc (dotted (p # c # rest)) createEmptyResult =
      Abrupt pushIsNotAFunction createEmptyResult"
    unfolding addReadOnlyField_def split using assms(5)
    by (simp add: createEmptyResult_def)
  ultimately have "visitExpr stc num (equals (foldl select (this_field p) (c # rest)) v)
      createEmptyResult = Abrupt pushIsNotAFunction createEmptyResult"
    by simp
  with assms(1,6) show ?thesis
    unfolding parseCELExpression_def by (simp add: createEmptyResult_def del: visitExpr.simps foldl_Cons)
qed

theorem nested_equality_prototype_parent_witness:
  "trim (str ''this.constructor.child == \"\"'') \<noteq> [] \<and> ''constructor'' \<noteq> [] \<and>
   CHR ''.'' \<notin> set ''constructor'' \<and> CHR ''.'' \<notin> set ''child'' \<and>
   extractConstant Number_model (empty_string :: int Expr) = Some (LString []) \<and>
   snakeToCamel_model ''constructor'' \<in> set objectPrototypeProperties \<and>
   parseCELExpression
     (parser_returning (equals (select (this_field ''constructor'') ''child'') empty_string))
     snakeToCamel_model Number_model (str ''this.constructor.child == \"\"'') =
     (createEmptyResult\<lparr>errors :=
        [failedToParse (str ''this.constructor.child == \"\"'') pushIsNotAFunction]\<rparr>
      :: int CELParseResult)"
  using nested_equality_prototype_parent [of "str ''this.constructor.child == \"\"''"
      "''constructor''" "''child''" "[]" Number_model empty_string "LString []" snakeToCamel_model
      "parser_returning (equals (select (this_field ''constructor'') ''child'') empty_string)"]
  by (simp add: nonblank_str isWhiteSpace_def objectPrototypeProperties_def)

text \<open>
  C7. The equality handler is symmetric in its two operands: an equality call with the
  operands \<open>l\<close>, \<open>r\<close> has the same outcome as the call with \<open>r\<close>, \<open>l\<close>, from every starting
  result; and if neither orientation gives a field path with a literal, the call
  leaves the result as it is.
\<close>

theorem handleEquality_symmetric:
  "handleEquality stc num [l, r] res = handleEquality stc num [r, l] res \<and>
   visitExpr stc num (CallExpr target ''_==_'' [l, r]) res =
     visitExpr stc num (CallExpr target' ''_==_'' [r, l]) res \<and>
   ((extractFieldPath l = None \<or> extractConstant num r = None) \<and>
    (extractFieldPath r = None \<or> extractConstant num l = None) \<longrightarrow>
      handleEquality stc num [l, r] res = Normal res)"
proof -
  have sym: "handleEquality stc num [l, r] res = handleEquality stc num [r, l] res"
  proof (cases "extractConstant num l")
    case None
    then show ?thesis
      by (simp add: handleEquality_pair processEqualityPair_no_constant)
  next
    case (Some v)
    then have "extractFieldPath l = None"
      by (rule extractConstant_not_path)
    with Some show ?thesis
      by (auto simp: handleEquality_pair processEqualityPair_no_path
          dest: extractConstant_not_path)
  qed
  have ign: "handleEquality stc num [l, r] res = Normal res"
    if "extractFieldPath l = None \<or> extractConstant num r = None"
      and "extractFieldPath r = None \<or> extractConstant num l = None"
    using that
    by (auto simp: handleEquality_pair processEqualityPair_no_constant
        processEqualityPair_no_path)
  from sym ign show ?thesis by simp
qed

theorem handleEquality_symmetric_witness:
  "handleEquality snakeToCamel_model Number_model [this_field ''field'', ConstExpr (StringValue (str ''x''))]
     createEmptyResult =
   Normal (createEmptyResult\<lparr>literalFields := [(''field'', LString (str ''x''))]\<rparr>) \<and>
   handleEquality snakeToCamel_model Number_model [ConstExpr (StringValue (str ''x'')), this_field ''field'']
     createEmptyResult =
   Normal (createEmptyResult\<lparr>literalFields := [(''field'', LString (str ''x''))]\<rparr>) \<and>
   extractFieldPath (IdentExpr ''field'' :: int Expr) = None \<and>
   extractConstant Number_model (IdentExpr ''field'' :: int Expr) = None \<and>
   handleEquality snakeToCamel_model Number_model [IdentExpr ''field'', empty_string]
     createEmptyResult = Normal (createEmptyResult :: int CELParseResult)"
  using handleEquality_symmetric [of snakeToCamel_model Number_model "this_field ''field''"
      "ConstExpr (StringValue (str ''x''))" createEmptyResult None None]
    handleEquality_symmetric [of snakeToCamel_model Number_model "IdentExpr ''field''"
      empty_string createEmptyResult None None]
  by (simp add: handleEquality_pair processEqualityPair_def createEmptyResult_def)

text \<open>
  C8. Negation of an explicit presence check and negation of the bare field path give
  the same outcome from every starting result: for every resolvable field path, the
  visit of \<^verbatim>\<open>!has(path)\<close> equals the visit of \<^verbatim>\<open>!path\<close>. For a top-level field \<open>f\<close> both
  forms analyse to the result whose only entry is \<open>readOnlyFields = [f]\<close> (camel-cased),
  whether the presence check arrives as a call of \<^verbatim>\<open>has\<close> or as a test-only select.
  A negation whose operand is neither a resolvable path nor \<^verbatim>\<open>has\<close> of one, and a
  negation without operand, leave the result as it is.
\<close>

theorem negation_forms_agree:
  "(extractFieldPath e = Some p \<longrightarrow>
      visitExpr stc num (CallExpr t1 ''!_'' [CallExpr t2 ''has'' [e]]) r =
        visitExpr stc num (CallExpr t3 ''!_'' [e]) r \<and>
      (p \<noteq> [] \<and> CHR ''.'' \<notin> set p \<and> trim celExpression \<noteq> [] \<and>
       (parse celExpression = Inr (Some (CallExpr t1 ''!_'' [CallExpr t2 ''has'' [e]])) \<or>
        parse celExpression = Inr (Some (CallExpr t3 ''!_'' [e]))) \<longrightarrow>
         parseCELExpression parse stc num celExpression =
           createEmptyResult\<lparr>readOnlyFields := [stc p]\<rparr>)) \<and>
   (extractFieldPath a = None \<and>
    (\<forall>t x. a = CallExpr t ''has'' [x] \<longrightarrow> extractFieldPath x = None) \<longrightarrow>
      visitExpr stc num (CallExpr t4 ''!_'' (a # rest)) r = Normal r) \<and>
   visitExpr stc num (CallExpr t4 ''!_'' []) r = Normal r"
proof -
  have forms: "visitExpr stc num (CallExpr t1 ''!_'' [CallExpr t2 ''has'' [e]]) r =
      visitExpr stc num (CallExpr t3 ''!_'' [e]) r" if "extractFieldPath e = Some p"
  proof -
    from that obtain operand field testOnly where "e = SelectExpr operand field testOnly"
      using resolvable_is_select by blast
    with that show ?thesis
      by (simp add: handleNegation_def)
  qed
  have top: "parseCELExpression parse stc num celExpression =
        createEmptyResult\<lparr>readOnlyFields := [stc p]\<rparr>"
    if path: "extractFieldPath e = Some p" and "p \<noteq> []" "CHR ''.'' \<notin> set p"
      and "trim celExpression \<noteq> []"
      and "parse celExpression = Inr (Some (CallExpr t1 ''!_'' [CallExpr t2 ''has'' [e]])) \<or>
       parse celExpression = Inr (Some (CallExpr t3 ''!_'' [e]))"
  proof -
    from path obtain operand field testOnly where "e = SelectExpr operand field testOnly"
      using resolvable_is_select by blast
    with path have bare: "handleNegation stc (Some e) createEmptyResult =
        addReadOnlyField stc p createEmptyResult"
      using that(2) by (simp add: handleNegation_def)
    from path have call: "handleNegation stc (Some (CallExpr t2 ''has'' [e])) createEmptyResult =
        addReadOnlyField stc p createEmptyResult"
      using that(2) by (simp add: handleNegation_def)
    have add: "addReadOnlyField stc p createEmptyResult =
        Normal (createEmptyResult\<lparr>readOnlyFields := [stc p]\<rparr>)"
      using that(3) by (simp add: addReadOnlyField_def createEmptyResult_def)
    have visits:
      "visitExpr stc num (CallExpr t1 ''!_'' [CallExpr t2 ''has'' [e]]) createEmptyResult =
         Normal (createEmptyResult\<lparr>readOnlyFields := [stc p]\<rparr>)"
      "visitExpr stc num (CallExpr t3 ''!_'' [e]) createEmptyResult =
         Normal (createEmptyResult\<lparr>readOnlyFields := [stc p]\<rparr>)"
      using bare call add by simp_all
    have tidy: "deduplicateResult (createEmptyResult\<lparr>readOnlyFields := [stc p]\<rparr>) =
        createEmptyResult\<lparr>readOnlyFields := [stc p]\<rparr>"
      by (simp add: createEmptyResult_def deduplicateResult_def dedup_single dedup_Nil)
    from that(5) show ?thesis
    proof
      assume "parse celExpression = Inr (Some (CallExpr t1 ''!_'' [CallExpr t2 ''has'' [e]]))"
      with that(4) show ?thesis
        using parseCELExpression_visited [OF _ _ visits(1)] tidy by simp
    next
      assume "parse celExpression = Inr (Some (CallExpr t3 ''!_'' [e]))"
      with that(4) show ?thesis
        using parseCELExpression_visited [OF _ _ visits(2)] tidy by simp
    qed
  qed
  have other: "visitExpr stc num (CallExpr t4 ''!_'' (a # rest)) r = Normal r"
    if "extractFieldPath a = None"
      and "\<forall>t x. a = CallExpr t ''has'' [x] \<longrightarrow> extractFieldPath x = None"
  proof (cases a)
    case (CallExpr t fn args)
    show ?thesis
    proof (cases "fn = ''has'' \<and> length args = 1")
      case True
      then obtain x where "args = [x]"
        by (auto simp: length_Suc_conv)
      with True CallExpr that(2) have "extractFieldPath x = None"
        by simp
      with True CallExpr \<open>args = [x]\<close> show ?thesis
        by (simp add: handleNegation_def)
    next
      case False
      with CallExpr show ?thesis
        by (auto simp: handleNegation_def)
    qed
  qed (use that in \<open>simp_all add: handleNegation_def\<close>)
  have none: "visitExpr stc num (CallExpr t4 ''!_'' []) r = Normal r"
    by (simp add: handleNegation_def)
  from forms top other none show ?thesis
    by blast
qed

theorem negation_forms_agree_witness:
  "extractFieldPath (select (this_field ''parent'') ''child'' :: int Expr) = Some ''parent.child'' \<and>
   visitExpr snakeToCamel_model Number_model
     (negation (has_call (select (this_field ''parent'') ''child''))) createEmptyResult =
   visitExpr snakeToCamel_model Number_model
     (negation (select (this_field ''parent'') ''child'')) createEmptyResult \<and>
   extractFieldPath (SelectExpr (Some (IdentExpr ''this'')) ''field'' True :: int Expr) =
     Some ''field'' \<and>
   ''field'' \<noteq> [] \<and> CHR ''.'' \<notin> set ''field'' \<and> trim (str ''!has(this.field)'') \<noteq> [] \<and>
   parseCELExpression
     (parser_returning (negation (SelectExpr (Some (IdentExpr ''this'')) ''field'' True)))
     snakeToCamel_model Number_model (str ''!has(this.field)'') =
     (createEmptyResult\<lparr>readOnlyFields := [''field'']\<rparr> :: int CELParseResult) \<and>
   extractFieldPath (equals (this_field ''field'') empty_string :: int Expr) = None \<and>
   visitExpr snakeToCamel_model Number_model
     (negation (equals (this_field ''field'') empty_string)) createEmptyResult =
     Normal (createEmptyResult :: int CELParseResult)"
  using negation_forms_agree [of "select (this_field ''parent'') ''child''" "''parent.child''"
      snakeToCamel_model Number_model None None createEmptyResult None "[]" "parser_throwing []"
      "equals (this_field ''field'') empty_string" None "[]"]
    negation_forms_agree [of "SelectExpr (Some (IdentExpr ''this'')) ''field'' True" "''field''"
      snakeToCamel_model Number_model None None createEmptyResult None "str ''!has(this.field)''"
      "parser_returning (negation (SelectExpr (Some (IdentExpr ''this'')) ''field'' True))"
      "IdentExpr ''field''" None "[]"]
  by (simp add: nonblank_str isWhiteSpace_def)

text \<open>
  C9. For every expression string that is empty or consists only of whitespace,
  \<open>parseCELExpression\<close> returns the all-empty result with an empty \<open>errors\<close> list,
  whatever the parser would do on that string: the parser's answer is not used.
\<close>

theorem blank_expression_empty_result:
  "(\<forall>c \<in> set celExpression. isWhiteSpace c) \<Longrightarrow>
     parseCELExpression parse snakeToCamel Number celExpression = createEmptyResult"
  by (simp add: parseCELExpression_def trim_empty_iff)

theorem blank_expression_empty_result_witness:
  "isWhiteSpace 0x0020 \<and> isWhiteSpace 0x0009 \<and> isWhiteSpace 0x000A \<and>
   parseCELExpression (parser_throwing (str ''unexpected end of input'')) snakeToCamel_model
     Number_model [0x0020, 0x0009, 0x000A] = (createEmptyResult :: int CELParseResult)"
proof -
  have blank: "\<forall>c \<in> set [0x0020, 0x0009, 0x000A]. isWhiteSpace c"
    by (simp add: isWhiteSpace_def)
  show ?thesis
    using blank_expression_empty_result [OF blank] by (simp add: isWhiteSpace_def)
qed

text \<open>
  C10. \<open>deduplicateResult\<close> leaves \<open>unionGroups\<close> as it is: it deduplicates the top-level
  \<open>readOnlyFields\<close> and each list of the top-level \<open>nestedConstraints\<close> only. Analysing
  \<^verbatim>\<open>(!this.field && !this.field) || !this.other\<close> returns a first branch
  whose \<open>readOnlyFields\<close> holds the name of \<open>field\<close> twice, while the same conjunction
  analysed at top level returns it once.
\<close>

theorem deduplication_skips_branches:
  "unionGroups (deduplicateResult r) = unionGroups r \<and>
   readOnlyFields (deduplicateResult r) = dedup (readOnlyFields r) \<and>
   distinct (readOnlyFields (deduplicateResult r)) \<and>
   (\<forall>entry \<in> set (nestedConstraints (deduplicateResult r)). distinct (snd entry)) \<and>
   (trim celExpression \<noteq> [] \<and>
    parse celExpression =
      Inr (Some (disjunction
        (conjunction (negation (this_field ''field''))
                     (negation (this_field ''field'')))
        (negation (this_field ''other'')))) \<longrightarrow>
      unionGroups (parseCELExpression parse stc num celExpression) =
        [\<lparr>readOnlyFields = [stc ''field'', stc ''field''], literalFields = [],
          nestedConstraints = []\<rparr>,
         \<lparr>readOnlyFields = [stc ''other''], literalFields = [], nestedConstraints = []\<rparr>] \<and>
      \<not> distinct (readOnlyFields (hd (unionGroups (parseCELExpression parse stc num celExpression))))) \<and>
   (trim celExpression \<noteq> [] \<and>
    parse celExpression =
      Inr (Some (conjunction (negation (this_field ''field''))
                             (negation (this_field ''field'')))) \<longrightarrow>
      readOnlyFields (parseCELExpression parse stc num celExpression) = [stc ''field''])"
proof -
  have general:
    "unionGroups (deduplicateResult r) = unionGroups r \<and>
     readOnlyFields (deduplicateResult r) = dedup (readOnlyFields r) \<and>
     distinct (readOnlyFields (deduplicateResult r)) \<and>
     (\<forall>entry \<in> set (nestedConstraints (deduplicateResult r)). distinct (snd entry))"
    by (auto simp: deduplicateResult_def distinct_dedup)
  have branch:
    "unionGroups (parseCELExpression parse stc num celExpression) =
        [\<lparr>readOnlyFields = [stc ''field'', stc ''field''], literalFields = [],
          nestedConstraints = []\<rparr>,
         \<lparr>readOnlyFields = [stc ''other''], literalFields = [], nestedConstraints = []\<rparr>] \<and>
      \<not> distinct (readOnlyFields (hd (unionGroups (parseCELExpression parse stc num celExpression))))"
    if "trim celExpression \<noteq> []"
      "parse celExpression =
        Inr (Some (disjunction
          (conjunction (negation (this_field ''field''))
                       (negation (this_field ''field'')))
          (negation (this_field ''other''))))"
    using that
    by (simp add: parseCELExpression_def handleNegation_def addReadOnlyField_def
        createEmptyResult_def deduplicateResult_def hasBranchConstraints_def)
  have top:
    "readOnlyFields (parseCELExpression parse stc num celExpression) = [stc ''field'']"
    if "trim celExpression \<noteq> []"
      "parse celExpression =
        Inr (Some (conjunction (negation (this_field ''field''))
                               (negation (this_field ''field''))))"
    using that
    by (simp add: parseCELExpression_def handleNegation_def addReadOnlyField_def
        createEmptyResult_def deduplicateResult_def dedup_def)
  from general branch top show ?thesis
    by blast
qed

theorem deduplication_skips_branches_witness:
  "trim (str ''(!this.field && !this.field) || !this.other'') \<noteq> [] \<and>
   trim (str ''!this.field && !this.field'') \<noteq> [] \<and>
   unionGroups (parseCELExpression
     (parser_returning (disjunction
        (conjunction (negation (this_field ''field'')) (negation (this_field ''field'')))
        (negation (this_field ''other''))))
     snakeToCamel_model Number_model (str ''(!this.field && !this.field) || !this.other'')
       :: int CELParseResult) =
     [\<lparr>readOnlyFields = [''field'', ''field''], literalFields = [], nestedConstraints = []\<rparr>,
      \<lparr>readOnlyFields = [''other''], literalFields = [], nestedConstraints = []\<rparr>] \<and>
   readOnlyFields (parseCELExpression
     (parser_returning
        (conjunction (negation (this_field ''field'')) (negation (this_field ''field''))))
     snakeToCamel_model Number_model (str ''!this.field && !this.field'') :: int CELParseResult) =
     [''field''] \<and>
   distinct (snd (''parent'', dedup [''child'', ''child'']))"
  using deduplication_skips_branches [of createEmptyResult
      "str ''(!this.field && !this.field) || !this.other''"
      "parser_returning (disjunction
        (conjunction (negation (this_field ''field'')) (negation (this_field ''field'')))
        (negation (this_field ''other'')))" snakeToCamel_model Number_model]
    deduplication_skips_branches [of
      "createEmptyResult\<lparr>nestedConstraints := [(''parent'', [''child'', ''child''])]\<rparr>"
      "str ''!this.field && !this.field''"
      "parser_returning
        (conjunction (negation (this_field ''field'')) (negation (this_field ''field'')))"
      snakeToCamel_model Number_model]
  by (simp add: nonblank_str isWhiteSpace_def deduplicateResult_def createEmptyResult_def)

end
